theory Spec2Isabelle
  imports Complex_Main "HOL-Library.Log_Nat"
begin

section \<open>JavaScript numbers\<close>

text \<open>
  Every quantity of the calculator is a JavaScript \<^verbatim>\<open>number\<close>, an IEEE 754 binary64
  value. A finite value is carried as the rational it denotes, and every arithmetic operation
  rounds its exact result back to binary64; the two infinities and NaN are constructors of
  their own. The two zeros are identified: they compare equal, print alike under
  \<^verbatim>\<open>toFixed\<close> and in template strings, and differ only as divisors.
\<close>

datatype jsnum = Fin rat | PosInf | NegInf | NaN

definition pow2 :: "int \<Rightarrow> rat" where
  "pow2 e = (if 0 \<le> e then 2 ^ nat e else 1 / 2 ^ nat (- e))"

text \<open>For \<open>0 < a\<close>, the exponent \<open>e\<close> with \<open>2\<^sup>e \<le> a < 2\<^sup>e\<^sup>+\<^sup>1\<close>.\<close>

definition ilog2 :: "rat \<Rightarrow> int" where
  "ilog2 a = (if 1 \<le> a then bitlen \<lfloor>a\<rfloor> - 1 else - bitlen (\<lceil>1 / a\<rceil> - 1))"

definition round_half_even :: "rat \<Rightarrow> int" where
  "round_half_even x =
     (let n = \<lfloor>x\<rfloor>; r = x - of_int n
      in if r < 1 / 2 then n else if 1 / 2 < r then n + 1 else if even n then n else n + 1)"

text \<open>
  Rounding of an exact result to binary64, to nearest with ties to even: 53 significant bits,
  the exponent held at \<open>-1022\<close> for subnormals, overflow to an infinity.
\<close>

definition rnd :: "rat \<Rightarrow> jsnum" where
  "rnd q =
     (if q = 0 then Fin 0
      else let a = \<bar>q\<bar>;
               e = max (ilog2 a) (- 1022);
               u = pow2 (e - 52);
               n = round_half_even (a / u)
           in if 1024 \<le> e \<or> (e = 1023 \<and> n = 2 ^ 53) then (if 0 < q then PosInf else NegInf)
              else Fin (sgn q * of_int n * u))"

text \<open>A value is a binary64 number when rounding leaves it alone.\<close>

definition is_double :: "jsnum \<Rightarrow> bool" where
  "is_double x = (case x of Fin q \<Rightarrow> rnd q = Fin q | _ \<Rightarrow> True)"

fun js_neg :: "jsnum \<Rightarrow> jsnum" where
  "js_neg (Fin a) = Fin (- a)"
| "js_neg PosInf = NegInf"
| "js_neg NegInf = PosInf"
| "js_neg NaN = NaN"

fun js_add :: "jsnum \<Rightarrow> jsnum \<Rightarrow> jsnum" where
  "js_add NaN y = NaN"
| "js_add x NaN = NaN"
| "js_add (Fin a) (Fin b) = rnd (a + b)"
| "js_add PosInf NegInf = NaN"
| "js_add NegInf PosInf = NaN"
| "js_add PosInf y = PosInf"
| "js_add NegInf y = NegInf"
| "js_add (Fin a) y = y"

definition js_sub :: "jsnum \<Rightarrow> jsnum \<Rightarrow> jsnum" where
  "js_sub x y = js_add x (js_neg y)"

fun js_mul :: "jsnum \<Rightarrow> jsnum \<Rightarrow> jsnum" where
  "js_mul NaN y = NaN"
| "js_mul x NaN = NaN"
| "js_mul (Fin a) (Fin b) = rnd (a * b)"
| "js_mul (Fin a) PosInf = (if a = 0 then NaN else if 0 < a then PosInf else NegInf)"
| "js_mul (Fin a) NegInf = (if a = 0 then NaN else if 0 < a then NegInf else PosInf)"
| "js_mul PosInf (Fin b) = (if b = 0 then NaN else if 0 < b then PosInf else NegInf)"
| "js_mul NegInf (Fin b) = (if b = 0 then NaN else if 0 < b then NegInf else PosInf)"
| "js_mul PosInf PosInf = PosInf"
| "js_mul PosInf NegInf = NegInf"
| "js_mul NegInf PosInf = NegInf"
| "js_mul NegInf NegInf = PosInf"

text \<open>
  Division. A nonzero number divided by zero is given the infinity it has for the divisor
  \<open>+0\<close>; for the divisor \<open>-0\<close> the program gets the opposite infinity, which the single zero
  cannot tell apart, so no theorem about the program below states the sign of such a quotient.
\<close>

fun js_div :: "jsnum \<Rightarrow> jsnum \<Rightarrow> jsnum" where
  "js_div NaN y = NaN"
| "js_div x NaN = NaN"
| "js_div (Fin a) (Fin b) =
     (if b = 0 then (if a = 0 then NaN else if 0 < a then PosInf else NegInf)
      else rnd (a / b))"
| "js_div (Fin a) y = Fin 0"
| "js_div PosInf (Fin b) = (if b < 0 then NegInf else PosInf)"
| "js_div NegInf (Fin b) = (if b < 0 then PosInf else NegInf)"
| "js_div x y = NaN"

text \<open>The relational operators: every comparison with NaN is false.\<close>

fun js_lt :: "jsnum \<Rightarrow> jsnum \<Rightarrow> bool" where
  "js_lt NaN y = False"
| "js_lt x NaN = False"
| "js_lt (Fin a) (Fin b) = (a < b)"
| "js_lt x NegInf = False"
| "js_lt PosInf y = False"
| "js_lt x y = True"

fun js_le :: "jsnum \<Rightarrow> jsnum \<Rightarrow> bool" where
  "js_le NaN y = False"
| "js_le x NaN = False"
| "js_le (Fin a) (Fin b) = (a \<le> b)"
| "js_le NegInf y = True"
| "js_le x PosInf = True"
| "js_le x y = False"

definition js_gt :: "jsnum \<Rightarrow> jsnum \<Rightarrow> bool" where
  "js_gt x y = js_lt y x"

text \<open>
  \<^verbatim>\<open>Math.max\<close>: the running maximum starts at \<open>-\<infinity>\<close>, and one NaN argument makes the
  result NaN.
\<close>

definition js_max2 :: "jsnum \<Rightarrow> jsnum \<Rightarrow> jsnum" where
  "js_max2 x y = (if x = NaN \<or> y = NaN then NaN else if js_lt x y then y else x)"

definition Math_max :: "jsnum list \<Rightarrow> jsnum" where
  "Math_max xs = foldl js_max2 NegInf xs"

subsection \<open>Numbers as text\<close>

definition digit_char :: "nat \<Rightarrow> char" where
  "digit_char d = ''0123456789'' ! d"

text \<open>The decimal digits of a natural number, held as an \<open>int\<close>.\<close>

function show_int :: "int \<Rightarrow> string" where
  "show_int n =
     (if n < 10 then [digit_char (nat n)]
      else show_int (n div 10) @ [digit_char (nat (n mod 10))])"
  by pat_completeness auto
termination
  by (relation "measure nat") auto

declare show_int.simps [simp del]

text \<open>
  The host of the program: the clock read by \<^verbatim>\<open>new Date().toISOString()\<close>, and the digits
  that \<^verbatim>\<open>Number::toString\<close> chooses for a finite value that is not an integer of magnitude
  at most \<open>2\<^sup>5\<^sup>3\<close> (the shortest decimal that reads back as the same number).
\<close>

record host =
  now_iso :: string
  shortest_digits :: "rat \<Rightarrow> string"

definition js_toString :: "host \<Rightarrow> jsnum \<Rightarrow> string" where
  "js_toString h x =
     (case x of
        NaN \<Rightarrow> ''NaN''
      | PosInf \<Rightarrow> ''Infinity''
      | NegInf \<Rightarrow> ''-Infinity''
      | Fin q \<Rightarrow>
          if q = of_int \<lfloor>q\<rfloor> \<and> \<bar>q\<bar> \<le> 2 ^ 53
          then (if q < 0 then ''-'' else []) @ show_int \<bar>\<lfloor>q\<rfloor>\<bar>
          else shortest_digits h q)"

text \<open>
  \<^verbatim>\<open>Number.prototype.toFixed(f)\<close>: a value that is not finite prints as \<^verbatim>\<open>toString\<close>
  does; otherwise the sign, then the integer \<open>n\<close> nearest to \<open>x \<times> 10\<^sup>f\<close> (the larger one on a
  tie) with a point before its last \<open>f\<close> digits, padded with zeros on the left. From
  \<open>10\<^sup>2\<^sup>1\<close> on the digits are those of \<^verbatim>\<open>toString\<close>.
\<close>

definition toFixed :: "host \<Rightarrow> nat \<Rightarrow> jsnum \<Rightarrow> string" where
  "toFixed h f x =
     (case x of
        Fin q \<Rightarrow>
          (let s = (if q < 0 then ''-'' else []);
               a = \<bar>q\<bar>
           in if 10 ^ 21 \<le> a then s @ js_toString h (Fin a)
              else let n = \<lfloor>a * 10 ^ f + 1 / 2\<rfloor>;
                       m = show_int n;
                       m' = (if f = 0 then m
                             else let z = (if length m \<le> f then replicate (f + 1 - length m) CHR ''0'' @ m
                                           else m);
                                      k = length z
                                  in take (k - f) z @ ''.'' @ drop (k - f) z)
                   in s @ m')
      | _ \<Rightarrow> js_toString h x)"

section \<open>The data model\<close>

text \<open>The component's state: \<^verbatim>\<open>inputs\<close>, \<^verbatim>\<open>timings\<close>, \<^verbatim>\<open>calibration\<close>, \<^verbatim>\<open>results\<close> and \<^verbatim>\<open>csvData\<close>.\<close>

record InputParameters =
  totalFlow :: jsnum
  targetHumidity :: jsnum
  ch2oSourceConc :: jsnum
  concentrations :: "jsnum list"
  useDesmosMath :: bool

record TimingParameters =
  baselineDuration :: jsnum
  exposureDuration :: jsnum
  stabilizationTime :: jsnum

record CalibrationConstants =
  humiditySlope :: jsnum
  humidityIntercept :: jsnum
  humidityOffset :: jsnum
  humidityScaleFactor :: jsnum
  ch2oCalibrationFactor :: jsnum

text \<open>An element of \<^verbatim>\<open>results.mfcC\<close>; its last two fields are optional in the declared type.\<close>

record MfcCEntry =
  concentration :: jsnum
  flow :: jsnum
  flow_standard :: "jsnum option"
  flow_desmos :: "jsnum option"

record FlowResult =
  mfcA :: jsnum
  mfcB :: jsnum
  mfcC :: "MfcCEntry list"
  isValid :: bool
  warnings :: "string list"

record app =
  inputs :: InputParameters
  timings :: TimingParameters
  calibration :: CalibrationConstants
  results :: FlowResult
  csvData :: string

text \<open>The initial state of the component; a decimal literal denotes the nearest binary64 value.\<close>

definition initial_inputs :: InputParameters where
  "initial_inputs =
     \<lparr>totalFlow = Fin 500, targetHumidity = Fin 35, ch2oSourceConc = rnd (535 / 100),
      concentrations = [Fin 50, Fin 100, Fin 200], useDesmosMath = True\<rparr>"

definition initial_timings :: TimingParameters where
  "initial_timings =
     \<lparr>baselineDuration = Fin 30, exposureDuration = Fin 30, stabilizationTime = Fin 5\<rparr>"

definition initial_calibration :: CalibrationConstants where
  "initial_calibration =
     \<lparr>humiditySlope = rnd (60785 / 10000), humidityIntercept = rnd (- (32458 / 1000)),
      humidityOffset = Fin 0, humidityScaleFactor = Fin 1, ch2oCalibrationFactor = Fin 1\<rparr>"

definition initial_results :: FlowResult where
  "initial_results = \<lparr>mfcA = Fin 0, mfcB = Fin 0, mfcC = [], isValid = True, warnings = []\<rparr>"

definition initial_app :: app where
  "initial_app =
     \<lparr>inputs = initial_inputs, timings = initial_timings, calibration = initial_calibration,
      results = initial_results, csvData = []\<rparr>"

section \<open>The flow computation\<close>

text \<open>The guard at the head of \<^verbatim>\<open>calculateMFCValues\<close>.\<close>

definition invalid_inputs :: "InputParameters \<Rightarrow> bool" where
  "invalid_inputs i \<longleftrightarrow>
     js_le (totalFlow i) (Fin 0) \<or> js_lt (targetHumidity i) (Fin 0)
     \<or> js_gt (targetHumidity i) (Fin 100)"

text \<open>The humid-air flow before and after the clamp at zero.\<close>

definition mfcB_unclamped :: "InputParameters \<Rightarrow> CalibrationConstants \<Rightarrow> jsnum" where
  "mfcB_unclamped i c = js_add (js_mul (humiditySlope c) (targetHumidity i)) (humidityIntercept c)"

definition mfcB_of :: "InputParameters \<Rightarrow> CalibrationConstants \<Rightarrow> jsnum" where
  "mfcB_of i c = (let b = mfcB_unclamped i c in if js_lt b (Fin 0) then Fin 0 else b)"

text \<open>The body of the \<^verbatim>\<open>map\<close> over \<^verbatim>\<open>inputs.concentrations\<close>.\<close>

definition mfcC_entry :: "InputParameters \<Rightarrow> CalibrationConstants \<Rightarrow> jsnum \<Rightarrow> MfcCEntry" where
  "mfcC_entry i c conc =
     (let fs = js_div (js_mul (js_div conc (Fin 1000)) (totalFlow i)) (ch2oSourceConc i);
          fd = js_mul fs (ch2oCalibrationFactor c)
      in \<lparr>concentration = conc, flow = (if useDesmosMath i then fd else fs),
          flow_standard = Some fs, flow_desmos = Some fd\<rparr>)"

definition capacity_warning :: "host \<Rightarrow> jsnum \<Rightarrow> jsnum \<Rightarrow> string" where
  "capacity_warning h maxMfcCFlow a =
     ''Max MFC C flow ('' @ toFixed h 2 maxMfcCFlow @ '' SLPM) exceeds MFC A capacity (''
       @ toFixed h 2 a @ '' SLPM)''"

text \<open>
  \<^verbatim>\<open>calculateMFCValues\<close>: the value it hands to \<^verbatim>\<open>setResults\<close>. The array \<^verbatim>\<open>warnings\<close>
  grows by \<^verbatim>\<open>push\<close>, written here as appending at the end. The call of
  \<^verbatim>\<open>console.log\<close> before \<^verbatim>\<open>setResults\<close> changes nothing in the state and is left out.
\<close>

definition calculateMFCValues :: "host \<Rightarrow> InputParameters \<Rightarrow> CalibrationConstants \<Rightarrow> FlowResult" where
  "calculateMFCValues h i c =
     (if invalid_inputs i
      then \<lparr>mfcA = Fin 0, mfcB = Fin 0, mfcC = [], isValid = False,
            warnings = [''Invalid input parameters'']\<rparr>
      else
        let w0 = [];
            b = mfcB_of i c;
            mfcCValues = map (mfcC_entry i c) (concentrations i);
            a = js_sub (totalFlow i) b;
            w1 = (if js_gt (targetHumidity i) (Fin 80)
                  then w0 @ [''Humidity >80% may cause condensation''] else w0);
            w2 = (if js_lt (targetHumidity i) (Fin 10)
                  then w1 @ [''Humidity <10% may be difficult to achieve''] else w1);
            maxMfcCFlow = Math_max (map flow mfcCValues);
            w3 = (if js_gt maxMfcCFlow a then w2 @ [capacity_warning h maxMfcCFlow a] else w2)
        in \<lparr>mfcA = a, mfcB = b, mfcC = mfcCValues, isValid = True, warnings = w3\<rparr>)"

text \<open>The effect of one run on the component's state.\<close>

definition recalculate :: "host \<Rightarrow> app \<Rightarrow> app" where
  "recalculate h s = s\<lparr>results := calculateMFCValues h (inputs s) (calibration s)\<rparr>"

section \<open>The CSV timeline\<close>

definition nl :: string where
  "nl = [CHR 0x0A]"

text \<open>The comment lines and the column row that open the document.\<close>

definition csv_header :: "host \<Rightarrow> InputParameters \<Rightarrow> string" where
  "csv_header h i =
     ''# Alicat SSCM MFC Configuration'' @ nl
     @ ''# Target Humidity: '' @ js_toString h (targetHumidity i) @ ''% RH'' @ nl
     @ ''# Total Flow: '' @ js_toString h (totalFlow i) @ '' SLPM'' @ nl
     @ ''# CH2O Source Concentration: '' @ js_toString h (ch2oSourceConc i) @ '' ppm'' @ nl
     @ ''# Generated: '' @ now_iso h @ nl
     @ ''#'' @ nl
     @ ''# Protocol: Baseline -> Concentration Steps -> Shutdown'' @ nl
     @ ''# MFC A: Dry air, MFC B: Humid air, MFC C: CH2O source'' @ nl
     @ ''#'' @ nl
     @ ''Time,MFC A,MFC B,MFC C'' @ nl"

text \<open>The template of an air baseline line, which the source writes out three times.\<close>

definition baseline_line :: "host \<Rightarrow> jsnum \<Rightarrow> jsnum \<Rightarrow> jsnum \<Rightarrow> string" where
  "baseline_line h currentTime a b =
     js_toString h currentTime @ '','' @ toFixed h 2 a @ '','' @ toFixed h 2 b @ '',0'' @ nl"

text \<open>
  The body of \<^verbatim>\<open>mfcC.forEach\<close>, acting on the two variables it assigns:
  \<^verbatim>\<open>csvContent\<close> and \<^verbatim>\<open>currentTime\<close>.
\<close>

definition csv_step ::
  "host \<Rightarrow> TimingParameters \<Rightarrow> FlowResult \<Rightarrow> string \<times> jsnum \<Rightarrow> MfcCEntry \<Rightarrow> string \<times> jsnum" where
  "csv_step h t r st concData =
     (case st of (csvContent, currentTime) \<Rightarrow>
        let csvContent1 = csvContent @ baseline_line h currentTime (mfcA r) (mfcB r);
            adjustedMfcA = js_sub (mfcA r) (flow concData);
            csvContent2 = csvContent1 @ js_toString h currentTime @ '','' @ toFixed h 2 adjustedMfcA
              @ '','' @ toFixed h 2 (mfcB r) @ '','' @ toFixed h 9 (flow concData) @ nl
        in (csvContent2, js_add currentTime (js_mul (exposureDuration t) (Fin 60))))"

definition generateCSV :: "host \<Rightarrow> InputParameters \<Rightarrow> TimingParameters \<Rightarrow> FlowResult \<Rightarrow> string" where
  "generateCSV h i t r =
     (if \<not> isValid r then []
      else
        let csvContent0 = csv_header h i;
            currentTime0 = Fin 0;
            csvContent1 = csvContent0 @ baseline_line h currentTime0 (mfcA r) (mfcB r);
            currentTime1 = js_add currentTime0 (js_mul (baselineDuration t) (Fin 60))
        in case foldl (csv_step h t r) (csvContent1, currentTime1) (mfcC r) of
             (csvContent2, currentTime2) \<Rightarrow>
               csvContent2 @ baseline_line h currentTime2 (mfcA r) (mfcB r)
                 @ js_toString h currentTime2 @ '',0,0,0'' @ nl)"

text \<open>\<^verbatim>\<open>getTotalTime\<close>; the length of an array is an integer below \<open>2\<^sup>3\<^sup>2\<close>, hence exact.\<close>

definition getTotalTime :: "host \<Rightarrow> InputParameters \<Rightarrow> TimingParameters \<Rightarrow> string" where
  "getTotalTime h i t =
     (let numConcentrations = Fin (of_nat (length (concentrations i)))
      in if concentrations i = [] then ''0''
         else
           let totalMinutes =
                 js_add (js_add (js_mul numConcentrations (baselineDuration t))
                                (js_mul numConcentrations (exposureDuration t)))
                        (exposureDuration t)
           in toFixed h 1 (js_div totalMinutes (Fin 60)))"

section \<open>The timeline as a list of rows\<close>

text \<open>
  The specification describes the body of the document as a sequence of rows. A row holds the
  time cursor and three channel cells; a cell is a number with the count of decimals it is
  printed with, or the literal \<^verbatim>\<open>0\<close>.
\<close>

datatype cell = Fixed nat jsnum | Zero

record csv_row =
  row_time :: jsnum
  row_A :: cell
  row_B :: cell
  row_C :: cell

fun cell_value :: "cell \<Rightarrow> jsnum" where
  "cell_value (Fixed f x) = x"
| "cell_value Zero = Fin 0"

fun render_cell :: "host \<Rightarrow> cell \<Rightarrow> string" where
  "render_cell h (Fixed f x) = toFixed h f x"
| "render_cell h Zero = ''0''"

definition render_row :: "host \<Rightarrow> csv_row \<Rightarrow> string" where
  "render_row h w =
     js_toString h (row_time w) @ '','' @ render_cell h (row_A w) @ '','' @ render_cell h (row_B w)
       @ '','' @ render_cell h (row_C w) @ nl"

definition baseline_row :: "FlowResult \<Rightarrow> jsnum \<Rightarrow> csv_row" where
  "baseline_row r cur =
     \<lparr>row_time = cur, row_A = Fixed 2 (mfcA r), row_B = Fixed 2 (mfcB r), row_C = Zero\<rparr>"

definition exposure_row :: "FlowResult \<Rightarrow> jsnum \<Rightarrow> MfcCEntry \<Rightarrow> csv_row" where
  "exposure_row r cur e =
     \<lparr>row_time = cur, row_A = Fixed 2 (js_sub (mfcA r) (flow e)), row_B = Fixed 2 (mfcB r),
      row_C = Fixed 9 (flow e)\<rparr>"

definition shutdown_row :: "jsnum \<Rightarrow> csv_row" where
  "shutdown_row cur = \<lparr>row_time = cur, row_A = Zero, row_B = Zero, row_C = Zero\<rparr>"

text \<open>The time cursor when step \<open>k\<close> begins: one baseline period, then \<open>k\<close> exposure periods.\<close>

fun cursor_at :: "TimingParameters \<Rightarrow> nat \<Rightarrow> jsnum" where
  "cursor_at t 0 = js_add (Fin 0) (js_mul (baselineDuration t) (Fin 60))"
| "cursor_at t (Suc k) = js_add (cursor_at t k) (js_mul (exposureDuration t) (Fin 60))"

text \<open>Steps 2 to 4 of the row algorithm, from a given cursor.\<close>

fun step_rows :: "TimingParameters \<Rightarrow> FlowResult \<Rightarrow> jsnum \<Rightarrow> MfcCEntry list \<Rightarrow> csv_row list" where
  "step_rows t r cur [] = [baseline_row r cur, shutdown_row cur]"
| "step_rows t r cur (e # es) =
     baseline_row r cur # exposure_row r cur e
       # step_rows t r (js_add cur (js_mul (exposureDuration t) (Fin 60))) es"

definition timeline :: "TimingParameters \<Rightarrow> FlowResult \<Rightarrow> csv_row list" where
  "timeline t r =
     baseline_row r (Fin 0)
       # step_rows t r (js_add (Fin 0) (js_mul (baselineDuration t) (Fin 60))) (mfcC r)"

text \<open>The sum of the three channels of a row, in the program's arithmetic and exactly.\<close>

definition channel_sum :: "csv_row \<Rightarrow> jsnum" where
  "channel_sum w = js_add (js_add (cell_value (row_A w)) (cell_value (row_B w))) (cell_value (row_C w))"

definition exact_channel_sum :: "csv_row \<Rightarrow> rat option" where
  "exact_channel_sum w =
     (case (cell_value (row_A w), cell_value (row_B w), cell_value (row_C w)) of
        (Fin x, Fin y, Fin z) \<Rightarrow> Some (x + y + z)
      | _ \<Rightarrow> None)"

section \<open>Evaluation on concrete inputs\<close>

text \<open>A host for evaluating the definitions on concrete inputs.\<close>

definition sample_host :: host where
  "sample_host = \<lparr>now_iso = ''2025-01-01T00:00:00.000Z'', shortest_digits = (\<lambda>q. ''#'')\<rparr>"

text \<open>A second calibration and input set, with small integer values.\<close>

definition sample_calibration :: CalibrationConstants where
  "sample_calibration =
     \<lparr>humiditySlope = Fin 2, humidityIntercept = Fin (- 20), humidityOffset = Fin 0,
      humidityScaleFactor = Fin 1, ch2oCalibrationFactor = Fin 1\<rparr>"

definition sample_inputs :: InputParameters where
  "sample_inputs =
     \<lparr>totalFlow = Fin 200, targetHumidity = Fin 90, ch2oSourceConc = Fin 5,
      concentrations = [Fin 1000, Fin 2000], useDesmosMath = False\<rparr>"

text \<open>The initial inputs with a total flow of \<^verbatim>\<open>0.1\<close> SLPM.\<close>

definition low_flow_inputs :: InputParameters where
  "low_flow_inputs = initial_inputs\<lparr>totalFlow := rnd (1 / 10)\<rparr>"

text \<open>
  The sample inputs with a negative source concentration and a negative concentration step,
  and with a zero source concentration and a zero concentration step.
\<close>

definition negative_pair_inputs :: InputParameters where
  "negative_pair_inputs = sample_inputs\<lparr>ch2oSourceConc := Fin (- 5), concentrations := [Fin (- 1000)]\<rparr>"

definition zero_pair_inputs :: InputParameters where
  "zero_pair_inputs = sample_inputs\<lparr>ch2oSourceConc := Fin 0, concentrations := [Fin 0]\<rparr>"

text \<open>The least positive binary64 number, \<open>2\<^sup>-\<^sup>1\<^sup>0\<^sup>7\<^sup>4\<close>.\<close>

definition least_positive :: rat where
  "least_positive = pow2 (- 1074)"

section \<open>Rejected inputs\<close>

text \<open>
  C1. When \<open>totalFlow \<le> 0\<close>, or \<open>targetHumidity < 0\<close>, or \<open>targetHumidity > 100\<close>, the
  orchestrator returns the fixed result with \<open>isValid = False\<close>, both air flows zero, no
  \<open>mfcC\<close> entry and the single warning \<open>Invalid input parameters\<close>, whatever the other
  inputs and the calibration are; and the CSV generator returns the empty string for every
  result with \<open>isValid = False\<close>.
\<close>

theorem invalid_input_short_circuit:
  "(js_le (totalFlow i) (Fin 0) \<or> js_lt (targetHumidity i) (Fin 0) \<or> js_gt (targetHumidity i) (Fin 100)
      \<longrightarrow> calculateMFCValues h i c =
            \<lparr>mfcA = Fin 0, mfcB = Fin 0, mfcC = [], isValid = False,
             warnings = [''Invalid input parameters'']\<rparr>)
   \<and> (\<not> isValid r \<longrightarrow> generateCSV h' i' t r = [])"
  by (simp add: calculateMFCValues_def invalid_inputs_def generateCSV_def)

theorem invalid_input_short_circuit_witness:
  "js_le (totalFlow (initial_inputs\<lparr>totalFlow := Fin (- 1)\<rparr>)) (Fin 0)
   \<and> calculateMFCValues sample_host (initial_inputs\<lparr>totalFlow := Fin (- 1)\<rparr>) initial_calibration =
        \<lparr>mfcA = Fin 0, mfcB = Fin 0, mfcC = [], isValid = False,
         warnings = [''Invalid input parameters'']\<rparr>
   \<and> \<not> isValid (initial_results\<lparr>isValid := False\<rparr>)
   \<and> generateCSV sample_host initial_inputs initial_timings (initial_results\<lparr>isValid := False\<rparr>) = []"
  using invalid_input_short_circuit [of "initial_inputs\<lparr>totalFlow := Fin (- 1)\<rparr>" sample_host
      initial_calibration "initial_results\<lparr>isValid := False\<rparr>" sample_host initial_inputs initial_timings]
  by (simp add: initial_inputs_def)

section \<open>Facts about rounding\<close>

text \<open>Integers of magnitude up to \<open>2\<^sup>5\<^sup>3\<close> are binary64 numbers: rounding is exact on them.\<close>

lemma round_half_even_int: "round_half_even (of_int m) = m"
  by (simp add: round_half_even_def)

lemma ilog2_of_int: "0 < n \<Longrightarrow> ilog2 (of_int n) = bitlen n - 1"
  by (simp add: ilog2_def)

lemma rnd_pos_int:
  assumes "0 < n" and "n \<le> 2 ^ 53"
  shows "rnd (of_int n) = Fin (of_int n)"
proof -
  define e where "e = bitlen n - 1"
  have lo: "2 ^ nat e \<le> n"
    using bitlen_bounds [OF assms(1)] by (simp add: e_def)
  have e0: "0 \<le> e"
    using assms(1) bitlen_nonneg [of n] bitlen_eq_zero_iff [of n] by (simp add: e_def)
  have "bitlen n \<le> 54"
    using assms(2) by (simp add: bitlen_le_iff_power)
  then have e53: "e \<le> 53" by (simp add: e_def)
  obtain m :: int where m: "rat_of_int n / pow2 (e - 52) = of_int m"
  proof (cases "e \<le> 52")
    case True
    then have "rat_of_int n / pow2 (e - 52) = of_int (n * 2 ^ nat (52 - e))"
      by (simp add: pow2_def)
    then show ?thesis using that by blast
  next
    case False
    with e53 have e: "e = 53" by simp
    with lo assms(2) have "n = 2 ^ 53" by simp
    then have "rat_of_int n / pow2 (e - 52) = of_int (2 ^ 52)"
      by (simp add: pow2_def e)
    then show ?thesis using that by blast
  qed
  have u: "pow2 (e - 52) \<noteq> 0" by (simp add: pow2_def)
  from m u have prod: "rat_of_int m * pow2 (e - 52) = of_int n"
    by (metis nonzero_divide_eq_eq)
  have il: "ilog2 (of_int n) = e"
    using assms(1) by (simp add: ilog2_of_int e_def)
  show ?thesis
    using assms(1) e0 e53 prod
    by (simp add: rnd_def il Let_def m round_half_even_int max_def)
qed

lemma rnd_of_int:
  assumes "\<bar>n\<bar> \<le> 2 ^ 53"
  shows "rnd (of_int n) = Fin (of_int n)"
proof (cases n "0::int" rule: linorder_cases)
  case less
  then have p: "0 < - n" "- n \<le> 2 ^ 53" using assms by simp_all
  have "rnd (of_int (- n)) = Fin (of_int (- n))" by (rule rnd_pos_int [OF p])
  then show ?thesis using less
    by (simp add: rnd_def Let_def split: if_splits)
next
  case equal
  then show ?thesis by (simp add: rnd_def)
next
  case greater
  then show ?thesis using assms rnd_pos_int by simp
qed

lemma rnd_numeral: "numeral k \<le> (2::int) ^ 53 \<Longrightarrow> rnd (numeral k) = Fin (numeral k)"
  using rnd_of_int [of "numeral k"] by simp

lemma rnd_neg_numeral: "numeral k \<le> (2::int) ^ 53 \<Longrightarrow> rnd (- numeral k) = Fin (- numeral k)"
  using rnd_of_int [of "- numeral k"] by simp

lemma rnd_one: "rnd 1 = Fin 1"
  using rnd_of_int [of 1] by simp

text \<open>Rounding keeps the sign: a negative exact result never rounds to a positive number.\<close>

lemma round_half_even_nonneg: "0 \<le> x \<Longrightarrow> 0 \<le> round_half_even x"
  by (simp add: round_half_even_def Let_def)

lemma pow2_pos: "0 < pow2 e"
  by (simp add: pow2_def)

lemma rnd_neg_cases:
  assumes "q < 0"
  shows "rnd q = NegInf \<or> (\<exists>v. rnd q = Fin v \<and> v \<le> 0)"
proof -
  define u where "u = pow2 (max (ilog2 \<bar>q\<bar>) (- 1022) - 52)"
  have "0 < u" by (simp add: u_def pow2_pos)
  then have "0 \<le> \<bar>q\<bar> / u" by simp
  then have "0 \<le> round_half_even (\<bar>q\<bar> / u)" by (rule round_half_even_nonneg)
  then have "sgn q * rat_of_int (round_half_even (\<bar>q\<bar> / u)) * u \<le> 0"
    using assms \<open>0 < u\<close> by (simp add: mult_nonneg_nonneg)
  then show ?thesis
    using assms by (simp add: rnd_def Let_def u_def)
qed

text \<open>The decimal literals of the initial state, and the quotient \<open>210 / 60\<close>.\<close>

lemma rnd_half_7: "rnd (7 / 2) = Fin (7 / 2)"
  by code_simp

section \<open>Accepted inputs\<close>

text \<open>Inputs with \<open>totalFlow > 0\<close> and \<open>0 \<le> targetHumidity \<le> 100\<close> pass the guard.\<close>

lemma valid_not_invalid:
  "js_gt (totalFlow i) (Fin 0) \<Longrightarrow> js_le (Fin 0) (targetHumidity i) \<Longrightarrow>
   js_le (targetHumidity i) (Fin 100) \<Longrightarrow> \<not> invalid_inputs i"
  by (cases "totalFlow i"; cases "targetHumidity i") (auto simp: invalid_inputs_def js_gt_def)

lemma calculateMFCValues_valid:
  "\<not> invalid_inputs i \<Longrightarrow>
   calculateMFCValues h i c =
     \<lparr>mfcA = js_sub (totalFlow i) (mfcB_of i c), mfcB = mfcB_of i c,
      mfcC = map (mfcC_entry i c) (concentrations i), isValid = True,
      warnings =
        (if js_gt (targetHumidity i) (Fin 80) then [''Humidity >80% may cause condensation''] else [])
        @ (if js_lt (targetHumidity i) (Fin 10) then [''Humidity <10% may be difficult to achieve''] else [])
        @ (if js_gt (Math_max (map flow (map (mfcC_entry i c) (concentrations i))))
                 (js_sub (totalFlow i) (mfcB_of i c))
           then [capacity_warning h (Math_max (map flow (map (mfcC_entry i c) (concentrations i))))
                   (js_sub (totalFlow i) (mfcB_of i c))]
           else [])\<rparr>"
  by (simp add: calculateMFCValues_def Let_def)

subsection \<open>The dilution entries\<close>

text \<open>
  C3. For accepted inputs the list \<open>mfcC\<close> is the list of concentrations mapped, entry by
  entry and in input order, to the record with the concentration itself,
  \<open>flow_standard = (c / 1000) \<times> totalFlow / ch2oSourceConc\<close>,
  \<open>flow_desmos = flow_standard \<times> ch2oCalibrationFactor\<close>, and \<open>flow\<close> equal to
  \<open>flow_desmos\<close> when the alternate-math flag is set and to \<open>flow_standard\<close> otherwise;
  the concentrations read back from the result are the input list, unchanged.
\<close>

theorem dilution_entries:
  assumes "js_gt (totalFlow i) (Fin 0)" and "js_le (Fin 0) (targetHumidity i)"
    and "js_le (targetHumidity i) (Fin 100)"
  shows "mfcC (calculateMFCValues h i c) =
           map (\<lambda>conc.
                  \<lparr>concentration = conc,
                   flow = (if useDesmosMath i
                           then js_mul (js_div (js_mul (js_div conc (Fin 1000)) (totalFlow i)) (ch2oSourceConc i))
                                  (ch2oCalibrationFactor c)
                           else js_div (js_mul (js_div conc (Fin 1000)) (totalFlow i)) (ch2oSourceConc i)),
                   flow_standard =
                     Some (js_div (js_mul (js_div conc (Fin 1000)) (totalFlow i)) (ch2oSourceConc i)),
                   flow_desmos =
                     Some (js_mul (js_div (js_mul (js_div conc (Fin 1000)) (totalFlow i)) (ch2oSourceConc i))
                            (ch2oCalibrationFactor c))\<rparr>)
               (concentrations i)
         \<and> map concentration (mfcC (calculateMFCValues h i c)) = concentrations i"
  using valid_not_invalid [OF assms]
  by (simp add: calculateMFCValues_valid mfcC_entry_def Let_def comp_def)

theorem dilution_entries_witness:
  "js_gt (totalFlow (initial_inputs\<lparr>concentrations := [Fin 200, Fin 50, Fin 200]\<rparr>)) (Fin 0)
   \<and> js_le (Fin 0) (targetHumidity (initial_inputs\<lparr>concentrations := [Fin 200, Fin 50, Fin 200]\<rparr>))
   \<and> js_le (targetHumidity (initial_inputs\<lparr>concentrations := [Fin 200, Fin 50, Fin 200]\<rparr>)) (Fin 100)
   \<and> map concentration
        (mfcC (calculateMFCValues sample_host
                 (initial_inputs\<lparr>concentrations := [Fin 200, Fin 50, Fin 200]\<rparr>) initial_calibration))
      = [Fin 200, Fin 50, Fin 200]"
proof -
  let ?i = "initial_inputs\<lparr>concentrations := [Fin 200, Fin 50, Fin 200]\<rparr>"
  have a: "js_gt (totalFlow ?i) (Fin 0)"
    by (simp add: initial_inputs_def js_gt_def)
  have b: "js_le (Fin 0) (targetHumidity ?i)"
    by (simp add: initial_inputs_def)
  have c: "js_le (targetHumidity ?i) (Fin 100)"
    by (simp add: initial_inputs_def)
  from dilution_entries [OF a b c, of sample_host initial_calibration]
  have "map concentration (mfcC (calculateMFCValues sample_host ?i initial_calibration)) = concentrations ?i"
    by (rule conjunct2)
  with a b c show ?thesis by simp
qed

subsection \<open>The warnings\<close>

text \<open>
  C4. For accepted inputs the warnings are, in this order and each on its own condition: the
  condensation warning when \<open>targetHumidity > 80\<close>, the low-humidity warning when
  \<open>targetHumidity < 10\<close>, and, when the largest \<open>mfcC\<close> flow exceeds \<open>mfcA\<close>, the capacity
  message carrying both numbers printed by \<^verbatim>\<open>toFixed(2)\<close>; there is no other warning.
\<close>

theorem warnings_in_order:
  assumes "js_gt (totalFlow i) (Fin 0)" and "js_le (Fin 0) (targetHumidity i)"
    and "js_le (targetHumidity i) (Fin 100)"
  shows "warnings (calculateMFCValues h i c) =
           (if js_gt (targetHumidity i) (Fin 80) then [''Humidity >80% may cause condensation''] else [])
           @ (if js_lt (targetHumidity i) (Fin 10) then [''Humidity <10% may be difficult to achieve''] else [])
           @ (if js_gt (Math_max (map flow (mfcC (calculateMFCValues h i c)))) (mfcA (calculateMFCValues h i c))
              then [''Max MFC C flow (''
                      @ toFixed h 2 (Math_max (map flow (mfcC (calculateMFCValues h i c))))
                      @ '' SLPM) exceeds MFC A capacity (''
                      @ toFixed h 2 (mfcA (calculateMFCValues h i c)) @ '' SLPM)'']
              else [])"
  using valid_not_invalid [OF assms]
  by (simp add: calculateMFCValues_valid capacity_warning_def)

text \<open>The run of the orchestrator on the sample inputs.\<close>

lemma sample_result:
  "calculateMFCValues h sample_inputs sample_calibration =
     \<lparr>mfcA = Fin 40, mfcB = Fin 160,
      mfcC = [\<lparr>concentration = Fin 1000, flow = Fin 40, flow_standard = Some (Fin 40),
               flow_desmos = Some (Fin 40)\<rparr>,
              \<lparr>concentration = Fin 2000, flow = Fin 80, flow_standard = Some (Fin 80),
               flow_desmos = Some (Fin 80)\<rparr>],
      isValid = True,
      warnings = [''Humidity >80% may cause condensation'',
                  capacity_warning h (Fin 80) (Fin 40)]\<rparr>"
  by (simp add: calculateMFCValues_def invalid_inputs_def sample_inputs_def sample_calibration_def
      mfcB_of_def mfcB_unclamped_def mfcC_entry_def Math_max_def js_max2_def js_gt_def js_sub_def
      rnd_numeral rnd_neg_numeral rnd_one Let_def)

lemma sample_fixed:
  "toFixed h 2 (Fin 80) = ''80.00''" "toFixed h 2 (Fin 40) = ''40.00''"
  by code_simp+

lemma sample_inputs_valid:
  "js_gt (totalFlow sample_inputs) (Fin 0)" "js_le (Fin 0) (targetHumidity sample_inputs)"
  "js_le (targetHumidity sample_inputs) (Fin 100)"
  by (simp_all add: sample_inputs_def js_gt_def)

lemma sample_result_descending:
  "calculateMFCValues h (sample_inputs\<lparr>concentrations := [Fin 2000, Fin 1000]\<rparr>) sample_calibration =
     \<lparr>mfcA = Fin 40, mfcB = Fin 160,
      mfcC = [\<lparr>concentration = Fin 2000, flow = Fin 80, flow_standard = Some (Fin 80),
               flow_desmos = Some (Fin 80)\<rparr>,
              \<lparr>concentration = Fin 1000, flow = Fin 40, flow_standard = Some (Fin 40),
               flow_desmos = Some (Fin 40)\<rparr>],
      isValid = True,
      warnings = [''Humidity >80% may cause condensation'',
                  capacity_warning h (Fin 80) (Fin 40)]\<rparr>"
  by (simp add: calculateMFCValues_def invalid_inputs_def sample_inputs_def sample_calibration_def
      mfcB_of_def mfcB_unclamped_def mfcC_entry_def Math_max_def js_max2_def js_gt_def js_sub_def
      rnd_numeral rnd_neg_numeral rnd_one Let_def)

theorem warnings_in_order_witness:
  "js_gt (totalFlow sample_inputs) (Fin 0)
   \<and> js_le (Fin 0) (targetHumidity sample_inputs)
   \<and> js_le (targetHumidity sample_inputs) (Fin 100)
   \<and> warnings (calculateMFCValues sample_host sample_inputs sample_calibration)
      = [''Humidity >80% may cause condensation'',
         ''Max MFC C flow (80.00 SLPM) exceeds MFC A capacity (40.00 SLPM)'']
   \<and> map flow
        (mfcC (calculateMFCValues sample_host (sample_inputs\<lparr>concentrations := [Fin 2000, Fin 1000]\<rparr>)
                 sample_calibration))
      = [Fin 80, Fin 40]
   \<and> warnings (calculateMFCValues sample_host (sample_inputs\<lparr>concentrations := [Fin 2000, Fin 1000]\<rparr>)
        sample_calibration)
      = [''Humidity >80% may cause condensation'',
         ''Max MFC C flow (80.00 SLPM) exceeds MFC A capacity (40.00 SLPM)'']"
proof -
  let ?d = "sample_inputs\<lparr>concentrations := [Fin 2000, Fin 1000]\<rparr>"
  have th: "targetHumidity sample_inputs = Fin 90" "targetHumidity ?d = Fin 90"
    by (simp_all add: sample_inputs_def)
  have dv: "js_gt (totalFlow ?d) (Fin 0)" "js_le (Fin 0) (targetHumidity ?d)"
    "js_le (targetHumidity ?d) (Fin 100)"
    by (simp_all add: sample_inputs_def js_gt_def)
  have "warnings (calculateMFCValues sample_host sample_inputs sample_calibration)
      = [''Humidity >80% may cause condensation'',
         ''Max MFC C flow (80.00 SLPM) exceeds MFC A capacity (40.00 SLPM)'']"
    unfolding warnings_in_order [OF sample_inputs_valid, of sample_host sample_calibration]
    by (simp add: sample_result th sample_fixed Math_max_def js_max2_def js_gt_def)
  moreover have "warnings (calculateMFCValues sample_host ?d sample_calibration)
      = [''Humidity >80% may cause condensation'',
         ''Max MFC C flow (80.00 SLPM) exceeds MFC A capacity (40.00 SLPM)'']"
    unfolding warnings_in_order [OF dv, of sample_host sample_calibration]
    by (simp add: sample_result_descending th sample_fixed Math_max_def js_max2_def js_gt_def)
  moreover have "map flow (mfcC (calculateMFCValues sample_host ?d sample_calibration)) = [Fin 80, Fin 40]"
    by (simp add: sample_result_descending)
  ultimately show ?thesis using sample_inputs_valid by simp
qed

subsection \<open>Validity and warnings\<close>

lemma humidity_warnings_exclusive: "\<not> (js_gt x (Fin 80) \<and> js_lt x (Fin 10))"
  by (cases x) (simp_all add: js_gt_def)

text \<open>
  C10. Every result of the orchestrator ties \<open>isValid\<close> to \<open>warnings\<close>: an invalid result
  carries exactly the warning \<open>Invalid input parameters\<close>; a valid result never carries that
  warning and has at most two warnings, since the two humidity conditions exclude each other.
\<close>

theorem validity_and_warnings:
  "(\<not> isValid (calculateMFCValues h i c) \<longrightarrow>
      warnings (calculateMFCValues h i c) = [''Invalid input parameters''])
   \<and> (isValid (calculateMFCValues h i c) \<longrightarrow>
        ''Invalid input parameters'' \<notin> set (warnings (calculateMFCValues h i c))
        \<and> length (warnings (calculateMFCValues h i c)) \<le> 2)"
proof (cases "invalid_inputs i")
  case True
  then show ?thesis by (simp add: calculateMFCValues_def)
next
  case False
  then show ?thesis
    using humidity_warnings_exclusive [of "targetHumidity i"]
    by (auto simp add: calculateMFCValues_valid capacity_warning_def)
qed

theorem validity_and_warnings_witness:
  "isValid (calculateMFCValues sample_host sample_inputs sample_calibration)
   \<and> ''Invalid input parameters''
        \<notin> set (warnings (calculateMFCValues sample_host sample_inputs sample_calibration))
   \<and> length (warnings (calculateMFCValues sample_host sample_inputs sample_calibration)) = 2
   \<and> \<not> isValid (calculateMFCValues sample_host (sample_inputs\<lparr>targetHumidity := Fin 101\<rparr>)
            sample_calibration)
   \<and> warnings (calculateMFCValues sample_host (sample_inputs\<lparr>targetHumidity := Fin 101\<rparr>)
        sample_calibration) = [''Invalid input parameters'']"
proof -
  have v: "isValid (calculateMFCValues sample_host sample_inputs sample_calibration)"
    by (simp add: sample_result)
  have n: "\<not> isValid (calculateMFCValues sample_host (sample_inputs\<lparr>targetHumidity := Fin 101\<rparr>)
            sample_calibration)"
    by (simp add: calculateMFCValues_def invalid_inputs_def js_gt_def)
  have l: "length (warnings (calculateMFCValues sample_host sample_inputs sample_calibration)) = 2"
    by (simp add: sample_result)
  from v n l
    validity_and_warnings [of sample_host sample_inputs sample_calibration]
    validity_and_warnings [of sample_host "sample_inputs\<lparr>targetHumidity := Fin 101\<rparr>" sample_calibration]
  show ?thesis by blast
qed

subsection \<open>Purity\<close>

lemma js_toString_clock: "js_toString (h\<lparr>now_iso := n\<rparr>) x = js_toString h x"
  by (cases x) (simp_all add: js_toString_def)

lemma toFixed_clock: "toFixed (h\<lparr>now_iso := n\<rparr>) f x = toFixed h f x"
  by (cases x) (simp_all add: toFixed_def js_toString_clock Let_def)

text \<open>
  C8. The flow computation is a function of the inputs and the calibration alone: two states
  that agree on \<open>inputs\<close> and \<open>calibration\<close> get the same \<open>results\<close> from a run, whatever
  their previous results, timings and CSV text were; running twice gives what running once
  gives; and the value does not depend on the clock.
\<close>

theorem flow_result_pure:
  "(inputs s = inputs s' \<and> calibration s = calibration s' \<longrightarrow>
      results (recalculate h s) = results (recalculate h s'))
   \<and> results (recalculate h (recalculate h s)) = results (recalculate h s)
   \<and> calculateMFCValues (h\<lparr>now_iso := n\<rparr>) i c = calculateMFCValues h i c"
  by (simp add: recalculate_def calculateMFCValues_def capacity_warning_def toFixed_clock Let_def)

theorem flow_result_pure_witness:
  "inputs initial_app
     = inputs (initial_app\<lparr>timings := initial_timings\<lparr>baselineDuration := Fin 5\<rparr>,
                 results := initial_results\<lparr>isValid := False\<rparr>, csvData := ''Time''\<rparr>)
   \<and> calibration initial_app
     = calibration (initial_app\<lparr>timings := initial_timings\<lparr>baselineDuration := Fin 5\<rparr>,
                 results := initial_results\<lparr>isValid := False\<rparr>, csvData := ''Time''\<rparr>)
   \<and> results (recalculate sample_host initial_app)
     = results (recalculate sample_host
         (initial_app\<lparr>timings := initial_timings\<lparr>baselineDuration := Fin 5\<rparr>,
                 results := initial_results\<lparr>isValid := False\<rparr>, csvData := ''Time''\<rparr>))"
  using flow_result_pure [of initial_app
      "initial_app\<lparr>timings := initial_timings\<lparr>baselineDuration := Fin 5\<rparr>,
                 results := initial_results\<lparr>isValid := False\<rparr>, csvData := ''Time''\<rparr>" sample_host]
  by simp

section \<open>The total experiment time\<close>

lemma fixed_three_and_a_half: "toFixed h 1 (Fin (7 / 2)) = ''3.5''"
  by code_simp

lemma total_minutes_210: "js_div (js_add (js_add (js_mul (Fin 3) (Fin 30)) (js_mul (Fin 3) (Fin 30))) (Fin 30)) (Fin 60) = Fin (7 / 2)"
  by (simp add: rnd_numeral rnd_half_7)

text \<open>
  C6. \<^verbatim>\<open>getTotalTime\<close> returns \<open>0\<close> when there is no concentration; otherwise it returns
  \<open>(N \<times> baselineDuration + N \<times> exposureDuration + exposureDuration) / 60\<close> printed by
  \<^verbatim>\<open>toFixed(1)\<close>, with \<open>N\<close> the number of concentrations; three concentrations with both
  durations 30 give \<open>3.5\<close>.
\<close>

theorem total_time:
  "(concentrations i = [] \<longrightarrow> getTotalTime h i t = ''0'')
   \<and> (concentrations i \<noteq> [] \<longrightarrow>
        getTotalTime h i t =
          toFixed h 1
            (js_div
               (js_add
                  (js_add (js_mul (Fin (of_nat (length (concentrations i)))) (baselineDuration t))
                          (js_mul (Fin (of_nat (length (concentrations i)))) (exposureDuration t)))
                  (exposureDuration t))
               (Fin 60)))
   \<and> (length (concentrations i) = 3 \<and> baselineDuration t = Fin 30 \<and> exposureDuration t = Fin 30 \<longrightarrow>
        getTotalTime h i t = ''3.5'')"
proof -
  have "getTotalTime h i t = ''3.5''"
    if "length (concentrations i) = 3" "baselineDuration t = Fin 30" "exposureDuration t = Fin 30"
  proof -
    from that(1) have ne: "concentrations i \<noteq> []" by auto
    with that have "getTotalTime h i t =
        toFixed h 1 (js_div (js_add (js_add (js_mul (Fin 3) (Fin 30)) (js_mul (Fin 3) (Fin 30))) (Fin 30)) (Fin 60))"
      by (simp add: getTotalTime_def)
    then show ?thesis
      by (simp only: total_minutes_210 fixed_three_and_a_half)
  qed
  then show ?thesis
    by (simp add: getTotalTime_def Let_def)
qed

theorem total_time_witness:
  "length (concentrations initial_inputs) = 3
   \<and> baselineDuration initial_timings = Fin 30 \<and> exposureDuration initial_timings = Fin 30
   \<and> getTotalTime sample_host initial_inputs initial_timings = ''3.5''
   \<and> concentrations (initial_inputs\<lparr>concentrations := []\<rparr>) = []
   \<and> getTotalTime sample_host (initial_inputs\<lparr>concentrations := []\<rparr>) initial_timings = ''0''"
proof -
  have a: "length (concentrations initial_inputs) = 3"
    "baselineDuration initial_timings = Fin 30" "exposureDuration initial_timings = Fin 30"
    by (simp_all add: initial_inputs_def initial_timings_def)
  have b: "concentrations (initial_inputs\<lparr>concentrations := []\<rparr>) = []"
    by simp
  from a total_time [of initial_inputs sample_host initial_timings]
  have "getTotalTime sample_host initial_inputs initial_timings = ''3.5''"
    by blast
  moreover from b total_time [of "initial_inputs\<lparr>concentrations := []\<rparr>" sample_host initial_timings]
  have "getTotalTime sample_host (initial_inputs\<lparr>concentrations := []\<rparr>) initial_timings = ''0''"
    by blast
  ultimately show ?thesis using a b by simp
qed

section \<open>The source concentration\<close>

text \<open>
  The exponent chosen by \<open>ilog2\<close> is a lower bound, so a quotient of magnitude at least
  \<open>least_positive\<close> does not round to zero.
\<close>

lemma pow2_powi: "pow2 e = 2 powi e"
  by (simp add: pow2_def power_int_def inverse_eq_divide power_one_over)

lemma pow2_mono: "d \<le> e \<Longrightarrow> pow2 d \<le> pow2 e"
  by (simp add: pow2_powi power_int_increasing)

lemma ilog2_lower:
  assumes "0 < a"
  shows "pow2 (ilog2 a) \<le> a"
proof (cases "1 \<le> a")
  case True
  then have p: "0 < \<lfloor>a\<rfloor>" by linarith
  from bitlen_bounds [OF p] have "2 ^ nat (bitlen \<lfloor>a\<rfloor> - 1) \<le> \<lfloor>a\<rfloor>" by simp
  then have "rat_of_int (2 ^ nat (bitlen \<lfloor>a\<rfloor> - 1)) \<le> of_int \<lfloor>a\<rfloor>"
    by (simp only: of_int_le_iff)
  also have "\<dots> \<le> a" by simp
  finally have "2 ^ nat (bitlen \<lfloor>a\<rfloor> - 1) \<le> a" by simp
  moreover have "0 \<le> bitlen \<lfloor>a\<rfloor> - 1"
    using p bitlen_nonneg [of "\<lfloor>a\<rfloor>"] bitlen_eq_zero_iff [of "\<lfloor>a\<rfloor>"] by simp
  ultimately show ?thesis
    using True by (simp add: ilog2_def pow2_def)
next
  case False
  with assms have "1 < 1 / a" by simp
  then have k: "2 \<le> \<lceil>1 / a\<rceil>" by linarith
  then have m: "0 < \<lceil>1 / a\<rceil> - 1" by simp
  define N where "N = nat (bitlen (\<lceil>1 / a\<rceil> - 1))"
  from bitlen_bounds [OF m] have "\<lceil>1 / a\<rceil> - 1 < 2 ^ N" by (simp add: N_def)
  then have c: "\<lceil>1 / a\<rceil> \<le> 2 ^ N" by simp
  have "1 / a \<le> rat_of_int \<lceil>1 / a\<rceil>" by (rule le_of_int_ceiling)
  also from c have "\<dots> \<le> rat_of_int (2 ^ N)" by (rule iffD2 [OF of_int_le_iff])
  also have "\<dots> = 2 ^ N" by simp
  finally have "1 / a \<le> 2 ^ N" .
  with assms have le: "1 / 2 ^ N \<le> a"
    by (simp add: field_simps)
  have "0 < bitlen (\<lceil>1 / a\<rceil> - 1)"
    using m bitlen_nonneg [of "\<lceil>1 / a\<rceil> - 1"] bitlen_eq_zero_iff [of "\<lceil>1 / a\<rceil> - 1"] by simp
  then show ?thesis
    using False le by (simp add: ilog2_def pow2_def N_def)
qed

lemma rnd_neg_strict:
  assumes "q \<le> - least_positive"
  shows "rnd q = NegInf \<or> (\<exists>v. rnd q = Fin v \<and> v < 0)"
proof -
  have lp: "0 < least_positive" by (simp add: least_positive_def pow2_pos)
  with assms have neg: "q < 0" by simp
  from assms neg have big: "least_positive \<le> \<bar>q\<bar>" by simp
  define e where "e = max (ilog2 \<bar>q\<bar>) (- 1022)"
  define u where "u = pow2 (e - 52)"
  have upos: "0 < u" by (simp add: u_def pow2_pos)
  have "u \<le> \<bar>q\<bar>"
  proof (cases "ilog2 \<bar>q\<bar> \<le> - 1022")
    case True
    then have "u = least_positive" by (simp add: u_def e_def least_positive_def max_def)
    with big show ?thesis by simp
  next
    case False
    then have "e = ilog2 \<bar>q\<bar>" by (simp add: e_def max_def)
    then have "u \<le> pow2 (ilog2 \<bar>q\<bar>)" by (simp add: u_def pow2_mono)
    also have "\<dots> \<le> \<bar>q\<bar>" using neg by (intro ilog2_lower) simp
    finally show ?thesis .
  qed
  with upos have "1 \<le> \<bar>q\<bar> / u" by simp
  then have "1 \<le> \<lfloor>\<bar>q\<bar> / u\<rfloor>" by linarith
  then have "1 \<le> round_half_even (\<bar>q\<bar> / u)"
    by (simp add: round_half_even_def Let_def)
  then have "0 < rat_of_int (round_half_even (\<bar>q\<bar> / u)) * u"
    using upos by simp
  then have "sgn q * (rat_of_int (round_half_even (\<bar>q\<bar> / u)) * u) < 0"
    using neg by (simp add: mult_neg_pos)
  then have "sgn q * rat_of_int (round_half_even (\<bar>q\<bar> / u)) * u < 0"
    by (simp only: mult.assoc)
  then show ?thesis
    using neg by (simp add: rnd_def Let_def u_def e_def)
qed

lemma least_positive_le_one: "least_positive \<le> 1"
  using pow2_mono [of "- 1074" 0] by (simp add: least_positive_def pow2_def)

lemma rnd_minus_one: "rnd (- 1) = Fin (- 1)"
  using rnd_of_int [of "- 1"] by simp

lemma rnd_zero: "rnd 0 = Fin 0"
  by (simp add: rnd_def)

lemma div_by_zero_pos: "js_gt n (Fin 0) \<Longrightarrow> js_div n (Fin 0) = PosInf"
  by (cases n) (simp_all add: js_gt_def)

lemma div_by_negative:
  assumes "js_gt n (Fin 0)" and "s < 0"
  shows "js_le (js_div n (Fin s)) (Fin 0)"
proof (cases n)
  case (Fin x)
  with assms have "x / s < 0" by (simp add: js_gt_def divide_pos_neg)
  from rnd_neg_cases [OF this] show ?thesis
    using Fin assms by auto
qed (use assms in \<open>simp_all add: js_gt_def\<close>)

lemma div_by_negative_strict:
  assumes "s < 0" and "least_positive \<le> x / (- s)"
  shows "js_lt (js_div (Fin x) (Fin s)) (Fin 0)"
proof -
  have "x / (- s) = - (x / s)" by simp
  with assms(2) have "least_positive \<le> - (x / s)" by (simp only:)
  then have "x / s \<le> - least_positive" by (simp only: le_minus_iff)
  from rnd_neg_strict [OF this] show ?thesis
    using assms(1) by auto
qed

text \<open>
  With \<open>totalFlow = 200\<close> and \<open>targetHumidity = 90\<close> the inputs are accepted. A source
  concentration of \<open>-5\<close> with the concentration step \<open>-1000\<close> gives the flow
  \<open>(-1000 / 1000) \<times> 200 / (-5) = 40\<close>, which is finite and positive; a source concentration
  of zero with the concentration step zero gives \<open>0 / 0\<close>, which is NaN.
\<close>

theorem source_concentration_counterexample:
  "js_gt (totalFlow negative_pair_inputs) (Fin 0)
   \<and> js_le (Fin 0) (targetHumidity negative_pair_inputs)
   \<and> js_le (targetHumidity negative_pair_inputs) (Fin 100)
   \<and> js_le (ch2oSourceConc negative_pair_inputs) (Fin 0)
   \<and> isValid (calculateMFCValues sample_host negative_pair_inputs sample_calibration)
   \<and> map flow_standard (mfcC (calculateMFCValues sample_host negative_pair_inputs sample_calibration))
        = [Some (Fin 40)]
   \<and> map flow (mfcC (calculateMFCValues sample_host negative_pair_inputs sample_calibration)) = [Fin 40]
   \<and> \<not> js_lt (Fin 40) (Fin 0) \<and> Fin 40 \<noteq> PosInf \<and> Fin 40 \<noteq> NegInf
   \<and> js_gt (totalFlow zero_pair_inputs) (Fin 0)
   \<and> js_le (Fin 0) (targetHumidity zero_pair_inputs)
   \<and> js_le (targetHumidity zero_pair_inputs) (Fin 100)
   \<and> js_le (ch2oSourceConc zero_pair_inputs) (Fin 0)
   \<and> isValid (calculateMFCValues sample_host zero_pair_inputs sample_calibration)
   \<and> map flow_standard (mfcC (calculateMFCValues sample_host zero_pair_inputs sample_calibration))
        = [Some NaN]
   \<and> map flow (mfcC (calculateMFCValues sample_host zero_pair_inputs sample_calibration)) = [NaN]
   \<and> \<not> js_lt NaN (Fin 0) \<and> NaN \<noteq> PosInf \<and> NaN \<noteq> NegInf"
  by (simp add: calculateMFCValues_def invalid_inputs_def negative_pair_inputs_def
      zero_pair_inputs_def sample_inputs_def sample_calibration_def mfcB_of_def mfcB_unclamped_def
      mfcC_entry_def Math_max_def js_max2_def js_gt_def js_sub_def rnd_minus_one rnd_zero
      rnd_numeral rnd_neg_numeral Let_def)

text \<open>
  C7, amended. The guard does not look at \<open>ch2oSourceConc\<close>: with \<open>totalFlow > 0\<close> and
  \<open>targetHumidity\<close> in \<open>[0, 100]\<close> the result is valid for every source concentration, zero
  and negative ones included. Each \<open>flow_standard\<close> is the quotient of the numerator
  \<open>(c / 1000) \<times> totalFlow\<close> by \<open>ch2oSourceConc\<close>, with no guard on the divisor; it is stored in
  the entry of the result and is its \<open>flow\<close> under the standard math. Where the numerator is
  positive, a zero source concentration gives an infinite value, and a negative finite one
  gives a value that is not positive; the value is negative where the exact quotient has a
  magnitude of at least \<open>2\<^sup>-\<^sup>1\<^sup>0\<^sup>7\<^sup>4\<close>, the least positive binary64 number, and where the
  numerator is \<open>+\<infinity>\<close>.
\<close>

theorem source_concentration_flows:
  assumes "js_gt (totalFlow i) (Fin 0)" and "js_le (Fin 0) (targetHumidity i)"
    and "js_le (targetHumidity i) (Fin 100)"
  shows "isValid (calculateMFCValues h (i\<lparr>ch2oSourceConc := s\<rparr>) c)
     \<and> (\<forall>k < length (concentrations i).
          flow_standard (mfcC (calculateMFCValues h i c) ! k) =
            Some (js_div (js_mul (js_div (concentrations i ! k) (Fin 1000)) (totalFlow i)) (ch2oSourceConc i))
          \<and> (\<not> useDesmosMath i \<longrightarrow>
               Some (flow (mfcC (calculateMFCValues h i c) ! k)) =
                 flow_standard (mfcC (calculateMFCValues h i c) ! k))
          \<and> (ch2oSourceConc i = Fin 0
               \<and> js_gt (js_mul (js_div (concentrations i ! k) (Fin 1000)) (totalFlow i)) (Fin 0) \<longrightarrow>
               flow_standard (mfcC (calculateMFCValues h i c) ! k) = Some PosInf
               \<or> flow_standard (mfcC (calculateMFCValues h i c) ! k) = Some NegInf)
          \<and> (\<forall>q. ch2oSourceConc i = Fin q \<and> q < 0
               \<and> js_gt (js_mul (js_div (concentrations i ! k) (Fin 1000)) (totalFlow i)) (Fin 0) \<longrightarrow>
               (\<exists>v. flow_standard (mfcC (calculateMFCValues h i c) ! k) = Some v \<and> js_le v (Fin 0)))
          \<and> (\<forall>q x. ch2oSourceConc i = Fin q \<and> q < 0
               \<and> js_mul (js_div (concentrations i ! k) (Fin 1000)) (totalFlow i) = Fin x
               \<and> least_positive \<le> x / (- q) \<longrightarrow>
               (\<exists>v. flow_standard (mfcC (calculateMFCValues h i c) ! k) = Some v \<and> js_lt v (Fin 0)))
          \<and> (\<forall>q. ch2oSourceConc i = Fin q \<and> q < 0
               \<and> js_mul (js_div (concentrations i ! k) (Fin 1000)) (totalFlow i) = PosInf \<longrightarrow>
               flow_standard (mfcC (calculateMFCValues h i c) ! k) = Some NegInf))"
proof -
  have v: "\<not> invalid_inputs i" by (rule valid_not_invalid [OF assms])
  then have "\<not> invalid_inputs (i\<lparr>ch2oSourceConc := s\<rparr>)"
    by (simp add: invalid_inputs_def)
  then have "isValid (calculateMFCValues h (i\<lparr>ch2oSourceConc := s\<rparr>) c)"
    by (simp add: calculateMFCValues_valid)
  then show ?thesis
    using v div_by_zero_pos div_by_negative div_by_negative_strict
    by (auto simp add: calculateMFCValues_valid mfcC_entry_def Let_def)
qed

theorem source_concentration_flows_witness:
  "js_gt (totalFlow (sample_inputs\<lparr>ch2oSourceConc := Fin 0\<rparr>)) (Fin 0)
   \<and> js_le (Fin 0) (targetHumidity (sample_inputs\<lparr>ch2oSourceConc := Fin 0\<rparr>))
   \<and> js_le (targetHumidity (sample_inputs\<lparr>ch2oSourceConc := Fin 0\<rparr>)) (Fin 100)
   \<and> isValid (calculateMFCValues sample_host (sample_inputs\<lparr>ch2oSourceConc := Fin 0\<rparr>) sample_calibration)
   \<and> (0::nat) < length (concentrations (sample_inputs\<lparr>ch2oSourceConc := Fin 0\<rparr>))
   \<and> js_gt (js_mul (js_div (concentrations (sample_inputs\<lparr>ch2oSourceConc := Fin 0\<rparr>) ! 0) (Fin 1000))
              (totalFlow (sample_inputs\<lparr>ch2oSourceConc := Fin 0\<rparr>))) (Fin 0)
   \<and> (flow_standard
        (mfcC (calculateMFCValues sample_host (sample_inputs\<lparr>ch2oSourceConc := Fin 0\<rparr>) sample_calibration) ! 0)
      = Some PosInf
      \<or> flow_standard
        (mfcC (calculateMFCValues sample_host (sample_inputs\<lparr>ch2oSourceConc := Fin 0\<rparr>) sample_calibration) ! 0)
      = Some NegInf)
   \<and> isValid (calculateMFCValues sample_host (sample_inputs\<lparr>ch2oSourceConc := Fin (- 5)\<rparr>) sample_calibration)
   \<and> js_mul (js_div (concentrations (sample_inputs\<lparr>ch2oSourceConc := Fin (- 5)\<rparr>) ! 0) (Fin 1000))
         (totalFlow (sample_inputs\<lparr>ch2oSourceConc := Fin (- 5)\<rparr>)) = Fin 200
   \<and> least_positive \<le> 200 / (- (- 5))
   \<and> (\<exists>v. flow_standard
        (mfcC (calculateMFCValues sample_host (sample_inputs\<lparr>ch2oSourceConc := Fin (- 5)\<rparr>) sample_calibration) ! 0)
        = Some v \<and> js_lt v (Fin 0))"
proof -
  let ?i = "sample_inputs\<lparr>ch2oSourceConc := Fin 0\<rparr>"
  let ?j = "sample_inputs\<lparr>ch2oSourceConc := Fin (- 5)\<rparr>"
  have a: "js_gt (totalFlow ?i) (Fin 0)" "js_le (Fin 0) (targetHumidity ?i)"
    "js_le (targetHumidity ?i) (Fin 100)"
    by (simp_all add: sample_inputs_def js_gt_def)
  have b: "js_gt (totalFlow ?j) (Fin 0)" "js_le (Fin 0) (targetHumidity ?j)"
    "js_le (targetHumidity ?j) (Fin 100)"
    by (simp_all add: sample_inputs_def js_gt_def)
  have k: "(0::nat) < length (concentrations ?i)" "(0::nat) < length (concentrations ?j)"
    by (simp_all add: sample_inputs_def)
  have n: "js_gt (js_mul (js_div (concentrations ?i ! 0) (Fin 1000)) (totalFlow ?i)) (Fin 0)"
    by (simp add: sample_inputs_def rnd_one rnd_numeral js_gt_def)
  have z: "ch2oSourceConc ?i = Fin 0"
    by (simp add: sample_inputs_def)
  have m: "js_mul (js_div (concentrations ?j ! 0) (Fin 1000)) (totalFlow ?j) = Fin 200"
    by (simp add: sample_inputs_def rnd_one rnd_numeral)
  have q: "ch2oSourceConc ?j = Fin (- 5)" "(- 5 :: rat) < 0" "least_positive \<le> 200 / (- (- 5))"
    using least_positive_le_one by (simp_all add: sample_inputs_def)
  note T = source_concentration_flows [OF a, of sample_host "Fin 0" sample_calibration]
  note U = source_concentration_flows [OF b, of sample_host "Fin (- 5)" sample_calibration]
  from T have v: "isValid (calculateMFCValues sample_host ?i sample_calibration)"
    by simp
  from U have w: "isValid (calculateMFCValues sample_host ?j sample_calibration)"
    by simp
  from spec [OF conjunct2 [OF T], of 0] k n z
  have inf: "flow_standard (mfcC (calculateMFCValues sample_host ?i sample_calibration) ! 0) = Some PosInf
    \<or> flow_standard (mfcC (calculateMFCValues sample_host ?i sample_calibration) ! 0) = Some NegInf"
    by blast
  from spec [OF conjunct2 [OF U], of 0] k m q
  have neg: "\<exists>v. flow_standard (mfcC (calculateMFCValues sample_host ?j sample_calibration) ! 0) = Some v
      \<and> js_lt v (Fin 0)"
    by blast
  from a k n inf v w m q(3) neg show ?thesis by blast
qed

section \<open>The two air flows\<close>

text \<open>The values of the initial state, and the arithmetic on them.\<close>

lemma initial_calibration_values:
  "humiditySlope initial_calibration = Fin (3421891291871445 / 562949953421312)"
  "humidityIntercept initial_calibration = Fin (- (1142014349259309 / 35184372088832))"
  by code_simp+

lemma initial_calibration_factor: "ch2oCalibrationFactor initial_calibration = Fin 1"
  by (simp add: initial_calibration_def)

lemma initial_source: "ch2oSourceConc initial_inputs = Fin (3011782250804019 / 562949953421312)"
  by code_simp

lemma initial_inputs_values:
  "totalFlow initial_inputs = Fin 500" "targetHumidity initial_inputs = Fin 35"
  "concentrations initial_inputs = [Fin 50, Fin 100, Fin 200]" "useDesmosMath initial_inputs"
  by (simp_all add: initial_inputs_def)

lemma low_flow_values:
  "totalFlow low_flow_inputs = Fin (3602879701896397 / 36028797018963968)"
  "targetHumidity low_flow_inputs = Fin 35"
  by code_simp+

lemma humid_flow_35:
  "js_add (js_mul (Fin (3421891291871445 / 562949953421312)) (Fin 35))
      (Fin (- (1142014349259309 / 35184372088832)))
   = Fin (6343372851709477 / 35184372088832)"
  by code_simp

lemma dry_flow_low:
  "js_sub (Fin (3602879701896397 / 36028797018963968)) (Fin (6343372851709477 / 35184372088832))
   = Fin (- (3169927207250297 / 17592186044416))"
  by code_simp

lemma sum_low:
  "js_add (Fin (- (3169927207250297 / 17592186044416))) (Fin (6343372851709477 / 35184372088832))
   = Fin (3518437208883 / 35184372088832)"
  by code_simp

lemma mfcB_35:
  assumes "targetHumidity i = Fin 35"
  shows "mfcB_unclamped i initial_calibration = Fin (6343372851709477 / 35184372088832)
   \<and> mfcB_of i initial_calibration = Fin (6343372851709477 / 35184372088832)"
  unfolding mfcB_of_def mfcB_unclamped_def initial_calibration_values assms humid_flow_35 Let_def
  by simp

text \<open>
  With the initial calibration, a humidity of 35 and a total flow of \<^verbatim>\<open>0.1\<close>, the inputs
  are accepted and the unclamped humid flow is positive, but the dry flow
  \<open>0.1 - 180.2895\<close> is rounded, and adding the humid flow back gives
  \<^verbatim>\<open>0.09999999999999432\<close>, not the total flow.
\<close>

theorem air_flow_sum_counterexample:
  "js_gt (totalFlow low_flow_inputs) (Fin 0)
   \<and> js_le (Fin 0) (targetHumidity low_flow_inputs)
   \<and> js_le (targetHumidity low_flow_inputs) (Fin 100)
   \<and> js_le (Fin 0) (mfcB_unclamped low_flow_inputs initial_calibration)
   \<and> totalFlow low_flow_inputs = Fin (3602879701896397 / 36028797018963968)
   \<and> mfcB (calculateMFCValues sample_host low_flow_inputs initial_calibration)
        = Fin (6343372851709477 / 35184372088832)
   \<and> mfcA (calculateMFCValues sample_host low_flow_inputs initial_calibration)
        = Fin (- (3169927207250297 / 17592186044416))
   \<and> js_add (mfcA (calculateMFCValues sample_host low_flow_inputs initial_calibration))
             (mfcB (calculateMFCValues sample_host low_flow_inputs initial_calibration))
        = Fin (3518437208883 / 35184372088832)
   \<and> js_add (mfcA (calculateMFCValues sample_host low_flow_inputs initial_calibration))
             (mfcB (calculateMFCValues sample_host low_flow_inputs initial_calibration))
        \<noteq> totalFlow low_flow_inputs
   \<and> - (3169927207250297 / 17592186044416) + 6343372851709477 / 35184372088832
        \<noteq> (3602879701896397 / 36028797018963968 :: rat)"
proof -
  have v: "\<not> invalid_inputs low_flow_inputs"
    by (simp add: invalid_inputs_def low_flow_values js_gt_def)
  note b = mfcB_35 [OF low_flow_values(2)]
  have rb: "mfcB (calculateMFCValues sample_host low_flow_inputs initial_calibration)
        = Fin (6343372851709477 / 35184372088832)"
    by (simp add: calculateMFCValues_valid [OF v] b)
  have ra: "mfcA (calculateMFCValues sample_host low_flow_inputs initial_calibration)
        = Fin (- (3169927207250297 / 17592186044416))"
    by (simp add: calculateMFCValues_valid [OF v] b low_flow_values dry_flow_low)
  show ?thesis
    unfolding ra rb sum_low
    by (simp add: low_flow_values b js_gt_def)
qed

text \<open>\<^verbatim>\<open>Math.max(0, x)\<close> is the clamp that the source writes as an assignment under \<open>x < 0\<close>.\<close>

lemma clamp_is_max: "(if js_lt x (Fin 0) then Fin 0 else x) = js_max2 (Fin 0) x"
  by (cases x) (auto simp add: js_max2_def)

lemma sub_zero: "is_double x \<Longrightarrow> js_sub x (Fin 0) = x"
  by (cases x) (simp_all add: js_sub_def is_double_def)

lemma add_back_exact:
  assumes "is_double (Fin t)" and "rnd (t - b) = Fin (t - b)"
  shows "js_add (js_sub (Fin t) (Fin b)) (Fin b) = Fin t"
  using assms by (simp add: js_sub_def is_double_def)

text \<open>
  C2, amended. For accepted inputs, \<open>mfcB = max(0, humiditySlope \<times> targetHumidity +
  humidityIntercept)\<close> and \<open>mfcA = totalFlow - mfcB\<close>, every operation being the rounded
  binary64 one. When the unclamped value is negative, \<open>mfcB = 0\<close> and \<open>mfcA = totalFlow\<close>.
  When the subtraction \<open>totalFlow - mfcB\<close> is exact, \<open>mfcA + mfcB = totalFlow\<close>.
\<close>

theorem air_flows:
  assumes "js_gt (totalFlow i) (Fin 0)" and "js_le (Fin 0) (targetHumidity i)"
    and "js_le (targetHumidity i) (Fin 100)" and "is_double (totalFlow i)"
  shows "mfcB (calculateMFCValues h i c) =
           js_max2 (Fin 0) (js_add (js_mul (humiditySlope c) (targetHumidity i)) (humidityIntercept c))
     \<and> mfcA (calculateMFCValues h i c) = js_sub (totalFlow i) (mfcB (calculateMFCValues h i c))
     \<and> (js_lt (js_add (js_mul (humiditySlope c) (targetHumidity i)) (humidityIntercept c)) (Fin 0) \<longrightarrow>
           mfcB (calculateMFCValues h i c) = Fin 0 \<and> mfcA (calculateMFCValues h i c) = totalFlow i)
     \<and> (\<forall>t b. totalFlow i = Fin t \<and> mfcB (calculateMFCValues h i c) = Fin b
             \<and> rnd (t - b) = Fin (t - b) \<longrightarrow>
           js_add (mfcA (calculateMFCValues h i c)) (mfcB (calculateMFCValues h i c)) = totalFlow i)"
proof -
  have v: "\<not> invalid_inputs i" by (rule valid_not_invalid [OF assms(1-3)])
  have b: "mfcB (calculateMFCValues h i c) =
           js_max2 (Fin 0) (js_add (js_mul (humiditySlope c) (targetHumidity i)) (humidityIntercept c))"
    by (simp add: calculateMFCValues_valid [OF v] mfcB_of_def mfcB_unclamped_def clamp_is_max)
  have a: "mfcA (calculateMFCValues h i c) = js_sub (totalFlow i) (mfcB (calculateMFCValues h i c))"
    by (simp add: calculateMFCValues_valid [OF v])
  have z: "mfcB (calculateMFCValues h i c) = Fin 0 \<and> mfcA (calculateMFCValues h i c) = totalFlow i"
    if "js_lt (js_add (js_mul (humiditySlope c) (targetHumidity i)) (humidityIntercept c)) (Fin 0)"
    using that assms(4)
    by (simp add: calculateMFCValues_valid [OF v] mfcB_of_def mfcB_unclamped_def sub_zero)
  have s: "js_add (mfcA (calculateMFCValues h i c)) (mfcB (calculateMFCValues h i c)) = totalFlow i"
    if "totalFlow i = Fin t" "mfcB (calculateMFCValues h i c) = Fin b" "rnd (t - b) = Fin (t - b)"
    for t b
    using add_back_exact [of t b] that assms(4) by (simp add: a)
  from a b z s show ?thesis by blast
qed

theorem air_flows_witness:
  "js_gt (totalFlow sample_inputs) (Fin 0)
   \<and> js_le (Fin 0) (targetHumidity sample_inputs)
   \<and> js_le (targetHumidity sample_inputs) (Fin 100)
   \<and> is_double (totalFlow sample_inputs)
   \<and> totalFlow sample_inputs = Fin 200
   \<and> mfcB (calculateMFCValues sample_host sample_inputs sample_calibration) = Fin 160
   \<and> rnd (200 - 160) = Fin (200 - 160)
   \<and> js_add (mfcA (calculateMFCValues sample_host sample_inputs sample_calibration))
        (mfcB (calculateMFCValues sample_host sample_inputs sample_calibration)) = totalFlow sample_inputs"
proof -
  have d: "is_double (totalFlow sample_inputs)"
    by (simp add: sample_inputs_def is_double_def rnd_numeral)
  have t: "totalFlow sample_inputs = Fin 200"
    by (simp add: sample_inputs_def)
  have b: "mfcB (calculateMFCValues sample_host sample_inputs sample_calibration) = Fin 160"
    by (simp add: sample_result)
  have e: "rnd (200 - 160) = Fin (200 - 160)"
    by (simp add: rnd_numeral)
  from air_flows [OF sample_inputs_valid d, of sample_host sample_calibration] t b e
  have "js_add (mfcA (calculateMFCValues sample_host sample_inputs sample_calibration))
        (mfcB (calculateMFCValues sample_host sample_inputs sample_calibration)) = totalFlow sample_inputs"
    by blast
  with sample_inputs_valid d t b e show ?thesis by simp
qed

section \<open>The generated document\<close>

subsection \<open>The text is the header followed by the rendered rows\<close>

lemma baseline_line_row: "baseline_line h cur (mfcA r) (mfcB r) = render_row h (baseline_row r cur)"
  by (simp add: baseline_line_def render_row_def baseline_row_def)

lemma shutdown_line_row: "js_toString h cur @ '',0,0,0'' @ nl = render_row h (shutdown_row cur)"
  by (simp add: render_row_def shutdown_row_def)

lemma csv_step_rows:
  "csv_step h t r (acc, cur) e =
     (acc @ render_row h (baseline_row r cur) @ render_row h (exposure_row r cur e),
      js_add cur (js_mul (exposureDuration t) (Fin 60)))"
  by (simp add: csv_step_def baseline_line_row Let_def render_row_def exposure_row_def)

lemma foldl_csv_step:
  "(case foldl (csv_step h t r) (acc, cur) es of
      (s, c) \<Rightarrow> s @ render_row h (baseline_row r c) @ render_row h (shutdown_row c))
   = acc @ concat (map (render_row h) (step_rows t r cur es))"
proof (induction es arbitrary: acc cur)
  case Nil
  show ?case by simp
next
  case (Cons e es)
  show ?case
    by (simp add: csv_step_rows Cons.IH)
qed

lemma generateCSV_rows:
  assumes "isValid r"
  shows "generateCSV h i t r = csv_header h i @ concat (map (render_row h) (timeline t r))"
proof -
  have "generateCSV h i t r =
      (case foldl (csv_step h t r)
              (csv_header h i @ render_row h (baseline_row r (Fin 0)),
               js_add (Fin 0) (js_mul (baselineDuration t) (Fin 60))) (mfcC r) of
         (s, c) \<Rightarrow> s @ render_row h (baseline_row r c) @ render_row h (shutdown_row c))"
    unfolding generateCSV_def Let_def baseline_line_row shutdown_line_row
    using assms by simp
  then show ?thesis
    by (simp add: foldl_csv_step timeline_def)
qed

subsection \<open>The rows, by position\<close>

lemma length_step_rows: "length (step_rows t r cur es) = 2 * length es + 2"
  by (induction es arbitrary: cur) simp_all

lemma length_timeline: "length (timeline t r) = 2 * length (mfcC r) + 3"
  by (simp add: timeline_def length_step_rows)

lemma advance_swap:
  "((\<lambda>c. js_add c d) ^^ k) (js_add cur d) = js_add (((\<lambda>c. js_add c d) ^^ k) cur) d"
  by (induction k) simp_all

lemma step_rows_nth:
  "k < length es \<Longrightarrow>
   step_rows t r cur es ! (2 * k) =
     baseline_row r (((\<lambda>c. js_add c (js_mul (exposureDuration t) (Fin 60))) ^^ k) cur)
   \<and> step_rows t r cur es ! (2 * k + 1) =
     exposure_row r (((\<lambda>c. js_add c (js_mul (exposureDuration t) (Fin 60))) ^^ k) cur) (es ! k)"
proof (induction es arbitrary: cur k)
  case Nil
  then show ?case by simp
next
  case (Cons e es)
  show ?case
  proof (cases k)
    case 0
    then show ?thesis by simp
  next
    case (Suc j)
    with Cons.prems have "j < length es" by simp
    from Cons.IH [OF this, of "js_add cur (js_mul (exposureDuration t) (Fin 60))"]
    show ?thesis
      by (simp add: Suc advance_swap)
  qed
qed

lemma step_rows_last:
  "step_rows t r cur es ! (2 * length es) =
     baseline_row r (((\<lambda>c. js_add c (js_mul (exposureDuration t) (Fin 60))) ^^ length es) cur)
   \<and> step_rows t r cur es ! (2 * length es + 1) =
     shutdown_row (((\<lambda>c. js_add c (js_mul (exposureDuration t) (Fin 60))) ^^ length es) cur)"
  by (induction es arbitrary: cur) (simp_all add: advance_swap)

lemma cursor_at_funpow:
  "cursor_at t k =
     ((\<lambda>c. js_add c (js_mul (exposureDuration t) (Fin 60))) ^^ k)
       (js_add (Fin 0) (js_mul (baselineDuration t) (Fin 60)))"
  by (induction k) simp_all

lemma timeline_first: "timeline t r ! 0 = baseline_row r (Fin 0)"
  by (simp add: timeline_def)

lemma timeline_step:
  assumes "k < length (mfcC r)"
  shows "timeline t r ! (2 * k + 1) = baseline_row r (cursor_at t k)"
    and "timeline t r ! (2 * k + 2) = exposure_row r (cursor_at t k) (mfcC r ! k)"
  using step_rows_nth [OF assms, where t = t and r = r
      and cur = "js_add (Fin 0) (js_mul (baselineDuration t) (Fin 60))"]
  by (simp_all add: timeline_def cursor_at_funpow)

lemma timeline_last:
  "timeline t r ! (2 * length (mfcC r) + 1) = baseline_row r (cursor_at t (length (mfcC r)))"
  "timeline t r ! (2 * length (mfcC r) + 2) = shutdown_row (cursor_at t (length (mfcC r)))"
  using step_rows_last [where t = t and r = r
      and cur = "js_add (Fin 0) (js_mul (baselineDuration t) (Fin 60))" and es = "mfcC r"]
  by (simp_all add: timeline_def cursor_at_funpow)

subsection \<open>Integer timings\<close>

lemma cursor_at_int:
  assumes "baselineDuration t = Fin (of_int bi)" and "exposureDuration t = Fin (of_int ei)"
    and "0 < bi" and "0 < ei" and "60 * (bi + int k * ei) \<le> 2 ^ 53"
  shows "cursor_at t k = Fin (of_int (60 * bi + 60 * int k * ei))"
  using assms(5)
proof (induction k)
  case 0
  then have "\<bar>bi * 60\<bar> \<le> 2 ^ 53" using assms(3) by simp
  from rnd_of_int [OF this] show ?case
    by (simp add: assms(1) mult.commute)
next
  case (Suc k)
  have "0 \<le> int k * ei" using assms(4) by simp
  have le: "60 * (bi + int k * ei) \<le> 60 * (bi + int (Suc k) * ei)"
    using assms(4) by (simp add: algebra_simps)
  with Suc.prems have "60 * (bi + int k * ei) \<le> 2 ^ 53" by linarith
  then have ih: "cursor_at t k = Fin (of_int (60 * bi + 60 * int k * ei))"
    by (rule Suc.IH)
  have "ei * 60 \<le> 60 * (bi + int (Suc k) * ei)"
    using assms(3) \<open>0 \<le> int k * ei\<close> by (simp add: algebra_simps)
  with Suc.prems have "\<bar>ei * 60\<bar> \<le> 2 ^ 53" using assms(4) by simp
  from rnd_of_int [OF this] have m: "rnd (rat_of_int ei * 60) = Fin (rat_of_int ei * 60)"
    by simp
  have "0 \<le> 60 * (bi + int (Suc k) * ei)"
    using assms(3,4) \<open>0 \<le> int k * ei\<close> by (simp add: algebra_simps)
  with Suc.prems have "\<bar>60 * bi + 60 * int k * ei + ei * 60\<bar> \<le> 2 ^ 53"
    by (simp add: algebra_simps)
  from rnd_of_int [OF this] show ?case
    by (simp add: ih assms(2) m algebra_simps)
qed

lemma js_toString_int: "0 \<le> n \<Longrightarrow> n \<le> 2 ^ 53 \<Longrightarrow> js_toString h (Fin (of_int n)) = show_int n"
  by (simp add: js_toString_def)

subsection \<open>The timeline of a valid result\<close>

text \<open>
  C5. For a valid result with \<open>N\<close> entries the document is the header followed by exactly
  \<open>2 \<times> N + 3\<close> rows, each printed as its time by \<^verbatim>\<open>toString\<close> and its three cells. The
  first row is a baseline \<open>(0, mfcA, mfcB, 0)\<close>; the cursor then advances by
  \<open>baselineDuration \<times> 60\<close>. Entry \<open>k\<close> gives a baseline row and then the exposure row
  \<open>(mfcA - flow, mfcB, flow)\<close>, both at the cursor \<open>cursor_at t k\<close>, which then advances by
  \<open>exposureDuration \<times> 60\<close>. The last two rows, a baseline and the shutdown \<open>(0, 0, 0)\<close>, stand
  at the final cursor. The air flows are printed with two decimals and the exposure flow with
  nine. With positive integer durations the cursors are the integers
  \<open>60 \<times> baselineDuration + k \<times> 60 \<times> exposureDuration\<close>, printed as plain decimal digits, as
  long as the last one does not exceed \<open>2\<^sup>5\<^sup>3\<close>.
\<close>

theorem csv_timeline:
  assumes "isValid r"
  shows "generateCSV h i t r = csv_header h i @ concat (map (render_row h) (timeline t r))
    \<and> length (timeline t r) = 2 * length (mfcC r) + 3
    \<and> timeline t r ! 0 =
        \<lparr>row_time = Fin 0, row_A = Fixed 2 (mfcA r), row_B = Fixed 2 (mfcB r), row_C = Zero\<rparr>
    \<and> (\<forall>k < length (mfcC r).
          timeline t r ! (2 * k + 1) =
            \<lparr>row_time = cursor_at t k, row_A = Fixed 2 (mfcA r), row_B = Fixed 2 (mfcB r),
             row_C = Zero\<rparr>
          \<and> timeline t r ! (2 * k + 2) =
            \<lparr>row_time = cursor_at t k, row_A = Fixed 2 (js_sub (mfcA r) (flow (mfcC r ! k))),
             row_B = Fixed 2 (mfcB r), row_C = Fixed 9 (flow (mfcC r ! k))\<rparr>)
    \<and> timeline t r ! (2 * length (mfcC r) + 1) =
        \<lparr>row_time = cursor_at t (length (mfcC r)), row_A = Fixed 2 (mfcA r),
         row_B = Fixed 2 (mfcB r), row_C = Zero\<rparr>
    \<and> timeline t r ! (2 * length (mfcC r) + 2) =
        \<lparr>row_time = cursor_at t (length (mfcC r)), row_A = Zero, row_B = Zero, row_C = Zero\<rparr>
    \<and> (\<forall>bi ei. baselineDuration t = Fin (of_int bi) \<and> exposureDuration t = Fin (of_int ei)
          \<and> 0 < bi \<and> 0 < ei \<and> 60 * (bi + int (length (mfcC r)) * ei) \<le> 2 ^ 53 \<longrightarrow>
          (\<forall>k \<le> length (mfcC r).
             cursor_at t k = Fin (of_int (60 * bi + 60 * int k * ei))
             \<and> js_toString h (cursor_at t k) = show_int (60 * bi + 60 * int k * ei)))"
proof -
  have ints: "cursor_at t k = Fin (of_int (60 * bi + 60 * int k * ei))
      \<and> js_toString h (cursor_at t k) = show_int (60 * bi + 60 * int k * ei)"
    if "baselineDuration t = Fin (of_int bi)" "exposureDuration t = Fin (of_int ei)"
      "0 < bi" "0 < ei" "60 * (bi + int (length (mfcC r)) * ei) \<le> 2 ^ 53" "k \<le> length (mfcC r)"
    for bi ei k
  proof -
    from that(4,6) have "int k * ei \<le> int (length (mfcC r)) * ei"
      by (simp add: mult_right_mono)
    then have "60 * (bi + int k * ei) \<le> 60 * (bi + int (length (mfcC r)) * ei)"
      by simp
    with that(5) have bound: "60 * (bi + int k * ei) \<le> 2 ^ 53"
      by (rule order_trans [rotated])
    have c: "cursor_at t k = Fin (of_int (60 * bi + 60 * int k * ei))"
      by (rule cursor_at_int [OF that(1-4) bound])
    have "0 \<le> int k * ei" using that(4) by simp
    with that(3) have "0 \<le> 60 * bi + 60 * int k * ei" by simp
    moreover from bound have "60 * bi + 60 * int k * ei \<le> 2 ^ 53" by (simp add: algebra_simps)
    ultimately have "js_toString h (Fin (of_int (60 * bi + 60 * int k * ei)))
        = show_int (60 * bi + 60 * int k * ei)"
      by (rule js_toString_int)
    with c show ?thesis by simp
  qed
  have rows: "timeline t r ! (2 * k + 1) = baseline_row r (cursor_at t k)
      \<and> timeline t r ! (2 * k + 2) = exposure_row r (cursor_at t k) (mfcC r ! k)"
    if "k < length (mfcC r)" for k
    using timeline_step [OF that] by simp
  from generateCSV_rows [OF assms] length_timeline timeline_first rows timeline_last ints
  show ?thesis
    unfolding baseline_row_def exposure_row_def shutdown_row_def by blast
qed

theorem csv_timeline_witness:
  "isValid (calculateMFCValues sample_host sample_inputs sample_calibration)
   \<and> length (mfcC (calculateMFCValues sample_host sample_inputs sample_calibration)) = 2
   \<and> length (timeline initial_timings (calculateMFCValues sample_host sample_inputs sample_calibration)) = 7
   \<and> generateCSV sample_host sample_inputs initial_timings
        (calculateMFCValues sample_host sample_inputs sample_calibration)
      = csv_header sample_host sample_inputs
        @ ''0,40.00,160.00,0'' @ nl
        @ ''1800,40.00,160.00,0'' @ nl
        @ ''1800,0.00,160.00,40.000000000'' @ nl
        @ ''3600,40.00,160.00,0'' @ nl
        @ ''3600,-40.00,160.00,80.000000000'' @ nl
        @ ''5400,40.00,160.00,0'' @ nl
        @ ''5400,0,0,0'' @ nl"
proof -
  let ?r = "calculateMFCValues sample_host sample_inputs sample_calibration"
  have v: "isValid ?r" and n: "length (mfcC ?r) = 2"
    by (simp_all add: sample_result)
  have body: "concat (map (render_row sample_host) (timeline initial_timings ?r))
      = ''0,40.00,160.00,0'' @ nl
        @ ''1800,40.00,160.00,0'' @ nl
        @ ''1800,0.00,160.00,40.000000000'' @ nl
        @ ''3600,40.00,160.00,0'' @ nl
        @ ''3600,-40.00,160.00,80.000000000'' @ nl
        @ ''5400,40.00,160.00,0'' @ nl
        @ ''5400,0,0,0'' @ nl"
    by code_simp
  from csv_timeline [OF v, of sample_host sample_inputs initial_timings]
  have "generateCSV sample_host sample_inputs initial_timings ?r
      = csv_header sample_host sample_inputs
        @ concat (map (render_row sample_host) (timeline initial_timings ?r))"
    and "length (timeline initial_timings ?r) = 2 * length (mfcC ?r) + 3"
    by blast+
  with v n body show ?thesis by simp
qed

section \<open>The total flow along the timeline\<close>

text \<open>The initial state: the dry flow, the first dilution flow and the sums of the channels.\<close>

lemma dry_flow_500:
  "js_sub (Fin 500) (Fin (6343372851709477 / 35184372088832)) = Fin (2812203298176631 / 8796093022208)"
  by code_simp

lemma dilution_50:
  "js_div (Fin 50) (Fin 1000) = Fin (3602879701896397 / 72057594037927936)"
  "js_mul (Fin (3602879701896397 / 72057594037927936)) (Fin 500) = Fin 25"
  "js_div (Fin 25) (Fin (3011782250804019 / 562949953421312)) = Fin (5261214517956187 / 1125899906842624)"
  "js_mul (Fin (5261214517956187 / 1125899906842624)) (Fin 1) = Fin (5261214517956187 / 1125899906842624)"
  by code_simp+

lemma exposure_50:
  "js_sub (Fin (2812203298176631 / 8796093022208)) (Fin (5261214517956187 / 1125899906842624))
     = Fin (5542200119510197 / 17592186044416)"
  by code_simp

lemma exposure_sum_50:
  "js_add (js_add (Fin (5542200119510197 / 17592186044416)) (Fin (6343372851709477 / 35184372088832)))
      (Fin (5261214517956187 / 1125899906842624))
     = Fin (8796093022208001 / 17592186044416)"
  by code_simp

lemma baseline_sum_500:
  "js_add (js_add (Fin (2812203298176631 / 8796093022208)) (Fin (6343372851709477 / 35184372088832)))
      (Fin 0)
     = Fin 500"
  by code_simp

lemma initial_entry_50:
  "flow (mfcC_entry initial_inputs initial_calibration (Fin 50)) = Fin (5261214517956187 / 1125899906842624)"
  unfolding mfcC_entry_def Let_def initial_inputs_values(1) initial_source initial_calibration_factor
    dilution_50
  by (simp add: initial_inputs_values)

lemma initial_result_values:
  "isValid (calculateMFCValues h initial_inputs initial_calibration)"
  "mfcA (calculateMFCValues h initial_inputs initial_calibration) = Fin (2812203298176631 / 8796093022208)"
  "mfcB (calculateMFCValues h initial_inputs initial_calibration) = Fin (6343372851709477 / 35184372088832)"
  "length (mfcC (calculateMFCValues h initial_inputs initial_calibration)) = 3"
  "flow (mfcC (calculateMFCValues h initial_inputs initial_calibration) ! 0)
     = Fin (5261214517956187 / 1125899906842624)"
proof -
  have v: "\<not> invalid_inputs initial_inputs"
    by (simp add: invalid_inputs_def initial_inputs_values js_gt_def)
  note b = mfcB_35 [OF initial_inputs_values(2)]
  show "isValid (calculateMFCValues h initial_inputs initial_calibration)"
    by (simp add: calculateMFCValues_valid [OF v])
  show "mfcB (calculateMFCValues h initial_inputs initial_calibration) = Fin (6343372851709477 / 35184372088832)"
    by (simp add: calculateMFCValues_valid [OF v] b)
  show "mfcA (calculateMFCValues h initial_inputs initial_calibration) = Fin (2812203298176631 / 8796093022208)"
    by (simp add: calculateMFCValues_valid [OF v] b initial_inputs_values dry_flow_500)
  show "length (mfcC (calculateMFCValues h initial_inputs initial_calibration)) = 3"
    by (simp add: calculateMFCValues_valid [OF v] initial_inputs_values)
  show "flow (mfcC (calculateMFCValues h initial_inputs initial_calibration) ! 0)
     = Fin (5261214517956187 / 1125899906842624)"
    by (simp add: calculateMFCValues_valid [OF v] initial_inputs_values(3) initial_entry_50)
qed

lemma channel_sum_rows:
  "channel_sum (baseline_row r cur) = js_add (js_add (mfcA r) (mfcB r)) (Fin 0)"
  "channel_sum (exposure_row r cur e) = js_add (js_add (js_sub (mfcA r) (flow e)) (mfcB r)) (flow e)"
  by (simp_all add: channel_sum_def baseline_row_def exposure_row_def)

text \<open>
  In the timeline of the initial state (total flow 500, humidity 35, source 5.35 ppm, first
  concentration 50 ppb) the baseline row before the first exposure carries
  \<open>(319.7105, 180.2895, 0)\<close>, which sum to 500, and the exposure row carries
  \<open>(315.0376\<dots>, 180.2895, 4.6728\<dots>)\<close>, which sum to \<^verbatim>\<open>500.00000000000006\<close> in the
  program's arithmetic; the exact sums of the two rows differ as well.
\<close>

theorem constant_total_flow_counterexample:
  "isValid (calculateMFCValues sample_host initial_inputs initial_calibration)
   \<and> (0::nat) < length (mfcC (calculateMFCValues sample_host initial_inputs initial_calibration))
   \<and> generateCSV sample_host initial_inputs initial_timings
        (calculateMFCValues sample_host initial_inputs initial_calibration)
      = csv_header sample_host initial_inputs
        @ concat (map (render_row sample_host)
            (timeline initial_timings (calculateMFCValues sample_host initial_inputs initial_calibration)))
   \<and> channel_sum
        (timeline initial_timings (calculateMFCValues sample_host initial_inputs initial_calibration) ! 1)
      = Fin 500
   \<and> channel_sum
        (timeline initial_timings (calculateMFCValues sample_host initial_inputs initial_calibration) ! 2)
      = Fin (8796093022208001 / 17592186044416)
   \<and> channel_sum
        (timeline initial_timings (calculateMFCValues sample_host initial_inputs initial_calibration) ! 2)
      \<noteq> channel_sum
        (timeline initial_timings (calculateMFCValues sample_host initial_inputs initial_calibration) ! 1)
   \<and> exact_channel_sum
        (timeline initial_timings (calculateMFCValues sample_host initial_inputs initial_calibration) ! 2)
      \<noteq> exact_channel_sum
        (timeline initial_timings (calculateMFCValues sample_host initial_inputs initial_calibration) ! 1)"
proof -
  let ?r = "calculateMFCValues sample_host initial_inputs initial_calibration"
  note iv = initial_result_values [of sample_host]
  have k: "(0::nat) < length (mfcC ?r)" by (simp add: iv)
  have b: "timeline initial_timings ?r ! 1 = baseline_row ?r (cursor_at initial_timings 0)"
    and e: "timeline initial_timings ?r ! 2 = exposure_row ?r (cursor_at initial_timings 0) (mfcC ?r ! 0)"
    using timeline_step [OF k, of initial_timings] by (simp_all add: numeral_2_eq_2)
  have sb: "channel_sum (timeline initial_timings ?r ! 1) = Fin 500"
    unfolding b channel_sum_rows iv baseline_sum_500 ..
  have se: "channel_sum (timeline initial_timings ?r ! 2) = Fin (8796093022208001 / 17592186044416)"
    unfolding e channel_sum_rows iv exposure_50 exposure_sum_50 ..
  have xb: "exact_channel_sum (timeline initial_timings ?r ! 1)
      = Some (2812203298176631 / 8796093022208 + 6343372851709477 / 35184372088832 + 0)"
    unfolding b by (simp add: exact_channel_sum_def baseline_row_def iv)
  have xe: "exact_channel_sum (timeline initial_timings ?r ! 2)
      = Some (5542200119510197 / 17592186044416 + 6343372851709477 / 35184372088832
              + 5261214517956187 / 1125899906842624)"
    unfolding e by (simp add: exact_channel_sum_def exposure_row_def iv exposure_50)
  have ne: "exact_channel_sum (timeline initial_timings ?r ! 2)
      \<noteq> exact_channel_sum (timeline initial_timings ?r ! 1)"
    unfolding xb xe by simp
  from iv(1) k generateCSV_rows [OF iv(1), of sample_host initial_inputs initial_timings] sb se ne
  show ?thesis by simp
qed

text \<open>
  C9, amended. For every entry of a valid result, the row before its exposure carries the
  channels \<open>(mfcA, mfcB, 0)\<close> and the exposure row carries \<open>(mfcA - flow, mfcB, flow)\<close>, the
  difference being the rounded binary64 one. Where the three values are finite and that
  subtraction is exact, both rows have the channel sum \<open>mfcA + mfcB\<close>.
\<close>

theorem exposure_row_channels:
  assumes "isValid r" and "k < length (mfcC r)"
  shows "generateCSV h i t r = csv_header h i @ concat (map (render_row h) (timeline t r))
    \<and> map cell_value
         [row_A (timeline t r ! (2 * k + 1)), row_B (timeline t r ! (2 * k + 1)),
          row_C (timeline t r ! (2 * k + 1))]
       = [mfcA r, mfcB r, Fin 0]
    \<and> map cell_value
         [row_A (timeline t r ! (2 * k + 2)), row_B (timeline t r ! (2 * k + 2)),
          row_C (timeline t r ! (2 * k + 2))]
       = [js_sub (mfcA r) (flow (mfcC r ! k)), mfcB r, flow (mfcC r ! k)]
    \<and> (\<forall>a b f. mfcA r = Fin a \<and> mfcB r = Fin b \<and> flow (mfcC r ! k) = Fin f
           \<and> rnd (a - f) = Fin (a - f) \<longrightarrow>
         exact_channel_sum (timeline t r ! (2 * k + 2)) = Some (a + b)
         \<and> exact_channel_sum (timeline t r ! (2 * k + 1)) = Some (a + b))"
proof -
  note rows = timeline_step [OF assms(2), of t]
  have c1: "map cell_value
         [row_A (timeline t r ! (2 * k + 1)), row_B (timeline t r ! (2 * k + 1)),
          row_C (timeline t r ! (2 * k + 1))]
       = [mfcA r, mfcB r, Fin 0]"
    unfolding rows by (simp add: baseline_row_def)
  have c2: "map cell_value
         [row_A (timeline t r ! (2 * k + 2)), row_B (timeline t r ! (2 * k + 2)),
          row_C (timeline t r ! (2 * k + 2))]
       = [js_sub (mfcA r) (flow (mfcC r ! k)), mfcB r, flow (mfcC r ! k)]"
    unfolding rows by (simp add: exposure_row_def)
  have c3: "exact_channel_sum (timeline t r ! (2 * k + 2)) = Some (a + b)
      \<and> exact_channel_sum (timeline t r ! (2 * k + 1)) = Some (a + b)"
    if "mfcA r = Fin a" "mfcB r = Fin b" "flow (mfcC r ! k) = Fin f" "rnd (a - f) = Fin (a - f)"
    for a b f
    unfolding rows using that
    by (simp add: exact_channel_sum_def exposure_row_def baseline_row_def js_sub_def)
  from generateCSV_rows [OF assms(1), of h i t] c1 c2 c3 show ?thesis
    by blast
qed

theorem exposure_row_channels_witness:
  "isValid (calculateMFCValues sample_host sample_inputs sample_calibration)
   \<and> (1::nat) < length (mfcC (calculateMFCValues sample_host sample_inputs sample_calibration))
   \<and> mfcA (calculateMFCValues sample_host sample_inputs sample_calibration) = Fin 40
   \<and> mfcB (calculateMFCValues sample_host sample_inputs sample_calibration) = Fin 160
   \<and> flow (mfcC (calculateMFCValues sample_host sample_inputs sample_calibration) ! 1) = Fin 80
   \<and> rnd (40 - 80) = Fin (40 - 80)
   \<and> exact_channel_sum
        (timeline initial_timings (calculateMFCValues sample_host sample_inputs sample_calibration) ! 4)
      = Some 200
   \<and> exact_channel_sum
        (timeline initial_timings (calculateMFCValues sample_host sample_inputs sample_calibration) ! 3)
      = Some 200"
proof -
  let ?r = "calculateMFCValues sample_host sample_inputs sample_calibration"
  have v: "isValid ?r" and k: "(1::nat) < length (mfcC ?r)"
    and a: "mfcA ?r = Fin 40" and b: "mfcB ?r = Fin 160" and f: "flow (mfcC ?r ! 1) = Fin 80"
    by (simp_all add: sample_result)
  have e: "rnd (40 - 80) = Fin (40 - 80)"
    by (simp add: rnd_neg_numeral)
  from exposure_row_channels [OF v k, of sample_host sample_inputs initial_timings] a b f e
  have "exact_channel_sum (timeline initial_timings ?r ! (2 * 1 + 2)) = Some (40 + 160)
      \<and> exact_channel_sum (timeline initial_timings ?r ! (2 * 1 + 1)) = Some (40 + 160)"
    by blast
  with v k a b f e show ?thesis by simp
qed

end
